theory Spec2Isabelle
  imports Complex_Main "HOL-Library.Sublist" "HOL-Library.Log_Nat"
begin

section \<open>JavaScript numbers\<close>

text \<open>
  The repository is JavaScript. A JavaScript number is modelled as a rational, extended by
  the three special values the code can produce by dividing by zero: \<open>Infinity\<close>,
  \<open>-Infinity\<close> and \<open>NaN\<close>. The operations \<open>jadd\<close>, \<open>jsub\<close>, \<open>jmul\<close> and \<open>jdiv\<close>
  are exact on finite values; the sign of zero is not modelled (a zero divisor counts as
  \<open>+0\<close>). The rounding of IEEE doubles is modelled where a decision of the code depends
  on it: \<open>buildLetterboxFilter\<close> compares a computed quotient with \<open>0.15\<close>, sizes exist
  whose exact quotient is \<open>0.15\<close>, and there the rounded operations \<open>dsub\<close> and \<open>ddiv\<close>
  of the subsection on rounding are used. Elsewhere the exact operations are used.
  A missing (\<open>undefined\<close>) operand becomes \<open>NaN\<close> in arithmetic, as \<open>ToNumber\<close> does.
\<close>

datatype jsnum = NaN | PInf | NInf | Fin rat

fun jneg :: "jsnum \<Rightarrow> jsnum" where
  "jneg NaN = NaN"
| "jneg PInf = NInf"
| "jneg NInf = PInf"
| "jneg (Fin a) = Fin (- a)"

fun jadd :: "jsnum \<Rightarrow> jsnum \<Rightarrow> jsnum" where
  "jadd (Fin a) (Fin b) = Fin (a + b)"
| "jadd NaN _ = NaN"
| "jadd _ NaN = NaN"
| "jadd PInf NInf = NaN"
| "jadd NInf PInf = NaN"
| "jadd PInf _ = PInf"
| "jadd NInf _ = NInf"
| "jadd _ PInf = PInf"
| "jadd _ NInf = NInf"

definition jsub :: "jsnum \<Rightarrow> jsnum \<Rightarrow> jsnum" where
  "jsub a b = jadd a (jneg b)"

text \<open>The sign of a non-NaN value: \<open>1\<close>, \<open>0\<close> or \<open>-1\<close>.\<close>

fun jsgn :: "jsnum \<Rightarrow> rat" where
  "jsgn NaN = 0"
| "jsgn PInf = 1"
| "jsgn NInf = - 1"
| "jsgn (Fin a) = sgn a"

definition inf_of_sign :: "rat \<Rightarrow> jsnum" where
  "inf_of_sign s = (if s = 0 then NaN else if 0 < s then PInf else NInf)"

fun jmul :: "jsnum \<Rightarrow> jsnum \<Rightarrow> jsnum" where
  "jmul (Fin a) (Fin b) = Fin (a * b)"
| "jmul NaN _ = NaN"
| "jmul _ NaN = NaN"
| "jmul a b = inf_of_sign (jsgn a * jsgn b)"

fun jdiv :: "jsnum \<Rightarrow> jsnum \<Rightarrow> jsnum" where
  "jdiv (Fin a) (Fin b) = (if b = 0 then inf_of_sign (sgn a) else Fin (a / b))"
| "jdiv NaN _ = NaN"
| "jdiv _ NaN = NaN"
| "jdiv (Fin a) _ = Fin 0"
| "jdiv PInf (Fin b) = (if b < 0 then NInf else PInf)"
| "jdiv NInf (Fin b) = (if b < 0 then PInf else NInf)"
| "jdiv _ _ = NaN"

text \<open>Comparisons with \<open>NaN\<close> are false.\<close>

fun jlt :: "jsnum \<Rightarrow> jsnum \<Rightarrow> bool" where
  "jlt (Fin a) (Fin b) = (a < b)"
| "jlt NaN _ = False"
| "jlt _ NaN = False"
| "jlt NInf NInf = False"
| "jlt NInf _ = True"
| "jlt PInf _ = False"
| "jlt _ PInf = True"
| "jlt _ NInf = False"

definition jgt :: "jsnum \<Rightarrow> jsnum \<Rightarrow> bool" where
  "jgt a b = jlt b a"

fun jabs :: "jsnum \<Rightarrow> jsnum" where
  "jabs NaN = NaN"
| "jabs PInf = PInf"
| "jabs NInf = PInf"
| "jabs (Fin a) = Fin \<bar>a\<bar>"

text \<open>\<open>Math.min\<close> and \<open>Math.max\<close> return \<open>NaN\<close> as soon as one argument is \<open>NaN\<close>.\<close>

fun jmin :: "jsnum \<Rightarrow> jsnum \<Rightarrow> jsnum" where
  "jmin NaN _ = NaN"
| "jmin _ NaN = NaN"
| "jmin a b = (if jlt b a then b else a)"

fun jmax :: "jsnum \<Rightarrow> jsnum \<Rightarrow> jsnum" where
  "jmax NaN _ = NaN"
| "jmax _ NaN = NaN"
| "jmax a b = (if jlt a b then b else a)"

text \<open>\<open>Math.round\<close>: the nearest integer, a tie going up.\<close>

fun jround :: "jsnum \<Rightarrow> jsnum" where
  "jround (Fin a) = Fin (of_int \<lfloor>a + 1 / 2\<rfloor>)"
| "jround a = a"

text \<open>Truthiness of a number: \<open>0\<close> and \<open>NaN\<close> are falsy.\<close>

fun truthy :: "jsnum \<Rightarrow> bool" where
  "truthy NaN = False"
| "truthy (Fin a) = (a \<noteq> 0)"
| "truthy _ = True"

fun is_fin :: "jsnum \<Rightarrow> bool" where
  "is_fin (Fin _) = True"
| "is_fin _ = False"

subsection \<open>Rounding to a double\<close>

text \<open>
  A finite double is \<open>m * 2^(e - 52)\<close> with an integer \<open>m\<close>, \<open>|m| < 2^53\<close>, and
  \<open>-1022 \<le> e \<le> 1023\<close>. An operation of the code on doubles gives the exact result
  rounded to the nearest double, a tie going to the even \<open>m\<close>; a decimal literal is read
  the same way.
\<close>







section \<open>The filter graph as data\<close>

text \<open>
  The code writes FFmpeg filter chains as text. A chain is modelled as the pads it reads,
  the filters it applies in order and the pad it writes; \<open>render\<close> gives the text the
  source's template literals produce, the conversion of a number to text being the
  parameter \<open>fmt\<close>.
\<close>

datatype pad =
    VideoIn nat          \<comment> \<open>\<open>[i:v]\<close>\<close>
  | AudioIn nat          \<comment> \<open>\<open>[i:a]\<close>\<close>
  | Lbl string           \<comment> \<open>\<open>[name]\<close>\<close>
  | LblN string nat      \<comment> \<open>\<open>[name${i}]\<close>\<close>

datatype aspect_fit = Increase | Decrease

datatype ffilter =
    Scale jsnum jsnum aspect_fit   \<comment> \<open>\<open>scale=W:H:force_original_aspect_ratio=...\<close>\<close>
  | Crop jsnum jsnum               \<comment> \<open>\<open>crop=W:H\<close>, centred by default\<close>
  | Color string jsnum jsnum       \<comment> \<open>\<open>color=c=C:s=WxH\<close>\<close>
  | OverlayCentred                 \<comment> \<open>\<open>overlay=(W-w)/2:(H-h)/2\<close>\<close>
  | Adelay nat                     \<comment> \<open>\<open>adelay=ms|ms\<close>, both channels\<close>
  | AfadeIn rat rat                \<comment> \<open>\<open>afade=t=in:st=S:d=D\<close>\<close>
  | AfadeOut rat rat               \<comment> \<open>\<open>afade=t=out:st=S:d=D\<close>\<close>
  | Volume rat                     \<comment> \<open>\<open>volume=V\<close>\<close>
  | AmixLongest nat                \<comment> \<open>\<open>amix=inputs=N:duration=longest\<close>\<close>
  | Anullsrc rat                   \<comment> \<open>\<open>anullsrc=channel_layout=stereo:sample_rate=48000:duration=D\<close>\<close>

record chain =
  ins :: "pad list"
  steps :: "ffilter list"
  out :: pad

fun render_pad :: "(jsnum \<Rightarrow> string) \<Rightarrow> pad \<Rightarrow> string" where
  "render_pad fmt (VideoIn i) = ''['' @ fmt (Fin (of_nat i)) @ '':v]''"
| "render_pad fmt (AudioIn i) = ''['' @ fmt (Fin (of_nat i)) @ '':a]''"
| "render_pad fmt (Lbl s) = ''['' @ s @ '']''"
| "render_pad fmt (LblN s i) = ''['' @ s @ fmt (Fin (of_nat i)) @ '']''"

fun render_fit :: "aspect_fit \<Rightarrow> string" where
  "render_fit Increase = ''increase''"
| "render_fit Decrease = ''decrease''"

fun render_filter :: "(jsnum \<Rightarrow> string) \<Rightarrow> ffilter \<Rightarrow> string" where
  "render_filter fmt (Scale w h f) =
     ''scale='' @ fmt w @ '':'' @ fmt h @ '':force_original_aspect_ratio='' @ render_fit f"
| "render_filter fmt (Crop w h) = ''crop='' @ fmt w @ '':'' @ fmt h"
| "render_filter fmt (Color c w h) = ''color=c='' @ c @ '':s='' @ fmt w @ ''x'' @ fmt h"
| "render_filter fmt OverlayCentred = ''overlay=(W-w)/2:(H-h)/2''"
| "render_filter fmt (Adelay ms) =
     ''adelay='' @ fmt (Fin (of_nat ms)) @ ''|'' @ fmt (Fin (of_nat ms))"
| "render_filter fmt (AfadeIn s d) = ''afade=t=in:st='' @ fmt (Fin s) @ '':d='' @ fmt (Fin d)"
| "render_filter fmt (AfadeOut s d) = ''afade=t=out:st='' @ fmt (Fin s) @ '':d='' @ fmt (Fin d)"
| "render_filter fmt (Volume v) = ''volume='' @ fmt (Fin v)"
| "render_filter fmt (AmixLongest n) =
     ''amix=inputs='' @ fmt (Fin (of_nat n)) @ '':duration=longest''"
| "render_filter fmt (Anullsrc d) =
     ''anullsrc=channel_layout=stereo:sample_rate=48000:duration='' @ fmt (Fin d)"

fun join_with :: "string \<Rightarrow> string list \<Rightarrow> string" where
  "join_with sep [] = []"
| "join_with sep [x] = x"
| "join_with sep (x # y # ys) = x @ sep @ join_with sep (y # ys)"

definition render_chain :: "(jsnum \<Rightarrow> string) \<Rightarrow> chain \<Rightarrow> string" where
  "render_chain fmt c =
     concat (map (render_pad fmt) (ins c)) @
     join_with '','' (map (render_filter fmt) (steps c)) @
     render_pad fmt (out c)"

definition render :: "(jsnum \<Rightarrow> string) \<Rightarrow> chain list \<Rightarrow> string" where
  "render fmt cs = join_with '';'' (map (render_chain fmt) cs)"

section \<open>ImageHandlingModes\<close>

datatype image_mode = CROP_FILL | LETTERBOX | BLUR_BACKGROUND | SMART_CROP

text \<open>The string each mode stands for in \<open>this.modes\<close>.\<close>

fun mode_name :: "image_mode \<Rightarrow> string" where
  "mode_name CROP_FILL = ''crop_fill''"
| "mode_name LETTERBOX = ''letterbox''"
| "mode_name BLUR_BACKGROUND = ''blur_bg''"
| "mode_name SMART_CROP = ''smart_crop''"

subsection \<open>recommendMode\<close>

definition mismatchRatio :: "jsnum \<Rightarrow> jsnum \<Rightarrow> jsnum" where
  "mismatchRatio imageAspect videoAspect = jdiv (jabs (jsub imageAspect videoAspect)) videoAspect"

definition recommendMode :: "jsnum \<Rightarrow> jsnum \<Rightarrow> image_mode" where
  "recommendMode imageAspect videoAspect =
     (if jlt (mismatchRatio imageAspect videoAspect) (Fin (2 / 10)) then CROP_FILL
      else if jlt (mismatchRatio imageAspect videoAspect) (Fin (5 / 10)) then BLUR_BACKGROUND
      else LETTERBOX)"

subsection \<open>buildLetterboxFilter\<close>

record letterbox_params =
  inputIndex :: nat
  videoWidth :: jsnum
  videoHeight :: jsnum
  imageWidth :: jsnum
  imageHeight :: jsnum
  backgroundColor :: "string option"





definition fill_filter :: "letterbox_params \<Rightarrow> chain list" where
  "fill_filter p =
     [\<lparr>ins = [VideoIn (inputIndex p)],
       steps = [Scale (videoWidth p) (videoHeight p) Increase, Crop (videoWidth p) (videoHeight p)],
       out = Lbl ''letterboxed''\<rparr>]"

definition bars_filter :: "letterbox_params \<Rightarrow> chain list" where
  "bars_filter p =
     (let bg = (case backgroundColor p of None \<Rightarrow> ''#2a2a2a'' | Some c \<Rightarrow> c) in
      [\<lparr>ins = [], steps = [Color bg (videoWidth p) (videoHeight p)],
        out = LblN ''bg'' (inputIndex p)\<rparr>,
       \<lparr>ins = [VideoIn (inputIndex p)],
        steps = [Scale (videoWidth p) (videoHeight p) Decrease],
        out = LblN ''img'' (inputIndex p)\<rparr>,
       \<lparr>ins = [LblN ''bg'' (inputIndex p), LblN ''img'' (inputIndex p)],
        steps = [OverlayCentred],
        out = Lbl ''letterboxed''\<rparr>])"



section \<open>MathematicalSizing\<close>

text \<open>
  A property read from an object is a map lookup. Every JavaScript object also answers to
  the names it inherits from \<open>Object.prototype\<close>; such a lookup gives a truthy value
  that has none of the fields the code reads afterwards.
\<close>

definition object_prototype_names :: "string list" where
  "object_prototype_names =
     [''constructor'', ''__defineGetter__'', ''__defineSetter__'', ''hasOwnProperty'',
      ''__lookupGetter__'', ''__lookupSetter__'', ''isPrototypeOf'', ''propertyIsEnumerable'',
      ''toString'', ''valueOf'', ''__proto__'', ''toLocaleString'']"

definition PHI_INVERSE :: rat where
  "PHI_INVERSE = 618033988749895 / 1000000000000000"

definition MIN_CLEAR_SPACE_RATIO :: rat where
  "MIN_CLEAR_SPACE_RATIO = 5 / 100"

record logo_config =
  logoHeightPercent :: jsnum
  reference :: "string option"
  minSize :: jsnum
  maxSize :: jsnum
  maxWidthPercent :: "jsnum option"

definition PLATFORM_CONFIGS :: "(string \<times> logo_config) list" where
  "PLATFORM_CONFIGS =
     [(''youtube'', \<lparr>logoHeightPercent = Fin (833 / 10000), reference = Some ''height'',
         minSize = Fin 80, maxSize = Fin 200, maxWidthPercent = None\<rparr>),
      (''instagram_reel'', \<lparr>logoHeightPercent = Fin (10 / 100), reference = Some ''width'',
         minSize = Fin 100, maxSize = Fin 200, maxWidthPercent = None\<rparr>),
      (''tiktok'', \<lparr>logoHeightPercent = Fin (10 / 100), reference = Some ''width'',
         minSize = Fin 100, maxSize = Fin 200, maxWidthPercent = None\<rparr>),
      (''instagram_feed'', \<lparr>logoHeightPercent = Fin (125 / 1000), reference = Some ''width'',
         minSize = Fin 100, maxSize = Fin 250, maxWidthPercent = None\<rparr>),
      (''facebook'', \<lparr>logoHeightPercent = Fin (833 / 10000), reference = Some ''height'',
         minSize = Fin 80, maxSize = Fin 200, maxWidthPercent = None\<rparr>),
      (''linkedin'', \<lparr>logoHeightPercent = Fin (625 / 10000), reference = Some ''height'',
         minSize = Fin 70, maxSize = Fin 180, maxWidthPercent = Some (Fin (25 / 100))\<rparr>),
      (''youtube_shorts'', \<lparr>logoHeightPercent = Fin (10 / 100), reference = Some ''width'',
         minSize = Fin 100, maxSize = Fin 200, maxWidthPercent = None\<rparr>),
      (''facebook_reels'', \<lparr>logoHeightPercent = Fin (10 / 100), reference = Some ''width'',
         minSize = Fin 100, maxSize = Fin 200, maxWidthPercent = None\<rparr>),
      (''instagram'', \<lparr>logoHeightPercent = Fin (10 / 100), reference = Some ''width'',
         minSize = Fin 100, maxSize = Fin 200, maxWidthPercent = None\<rparr>)]"

text \<open>What reading the fields of an inherited member gives: every field is missing.\<close>

definition inherited_config :: logo_config where
  "inherited_config =
     \<lparr>logoHeightPercent = NaN, reference = None, minSize = NaN, maxSize = NaN,
      maxWidthPercent = None\<rparr>"

text \<open>\<open>this.PLATFORM_CONFIGS[platform] || this.PLATFORM_CONFIGS['youtube']\<close>\<close>

definition config_for :: "string \<Rightarrow> logo_config" where
  "config_for platform =
     (case map_of PLATFORM_CONFIGS platform of
        Some c \<Rightarrow> c
      | None \<Rightarrow>
          if platform \<in> set object_prototype_names then inherited_config
          else the (map_of PLATFORM_CONFIGS ''youtube''))"

record position =
  pos_x :: jsnum
  pos_y :: jsnum

text \<open>
  \<open>positions[position] || positions['bottom-right']\<close>: \<open>positions\<close> is an object literal,
  so a name inherited from \<open>Object.prototype\<close> finds the inherited member, which is
  truthy and has neither \<open>x\<close> nor \<open>y\<close>; every other unknown name gets the bottom right
  position.
\<close>

definition calculateGoldenPosition ::
  "jsnum \<Rightarrow> jsnum \<Rightarrow> jsnum \<Rightarrow> jsnum \<Rightarrow> string \<Rightarrow> position" where
  "calculateGoldenPosition containerWidth containerHeight elementWidth elementHeight pos =
     (let marginX = jmul containerWidth (Fin MIN_CLEAR_SPACE_RATIO);
          marginY = jmul containerHeight (Fin MIN_CLEAR_SPACE_RATIO);
          goldenX = jmul containerWidth (Fin PHI_INVERSE);
          goldenY = jmul containerHeight (Fin PHI_INVERSE);
          centreX = jdiv (jsub containerWidth elementWidth) (Fin 2);
          centreY = jdiv (jsub containerHeight elementHeight) (Fin 2);
          rightX = jsub (jsub containerWidth elementWidth) marginX;
          bottomY = jsub (jsub containerHeight elementHeight) marginY
      in if pos = ''top-left'' then \<lparr>pos_x = marginX, pos_y = marginY\<rparr>
         else if pos = ''top-center'' then \<lparr>pos_x = centreX, pos_y = marginY\<rparr>
         else if pos = ''top-right'' then \<lparr>pos_x = rightX, pos_y = marginY\<rparr>
         else if pos = ''center'' then \<lparr>pos_x = centreX, pos_y = centreY\<rparr>
         else if pos = ''bottom-left'' then \<lparr>pos_x = marginX, pos_y = bottomY\<rparr>
         else if pos = ''bottom-center'' then \<lparr>pos_x = centreX, pos_y = bottomY\<rparr>
         else if pos = ''bottom-right'' then \<lparr>pos_x = rightX, pos_y = bottomY\<rparr>
         else if pos = ''golden-top-left'' then
           \<lparr>pos_x = jsub goldenX (jdiv elementWidth (Fin 2)), pos_y = marginY\<rparr>
         else if pos = ''golden-bottom-right'' then
           \<lparr>pos_x = jsub (jsub containerWidth goldenX) (jdiv elementWidth (Fin 2)),
            pos_y = jsub (jsub containerHeight goldenY) (jdiv elementHeight (Fin 2))\<rparr>
         else if pos \<in> set object_prototype_names then \<lparr>pos_x = NaN, pos_y = NaN\<rparr>
         else \<lparr>pos_x = rightX, pos_y = bottomY\<rparr>)"

text \<open>
  \<open>calculateLogoSize\<close>, step by step. Steps 1 and 2: the reference dimension and the
  target size.
\<close>

definition targetSize :: "logo_config \<Rightarrow> jsnum \<Rightarrow> jsnum \<Rightarrow> jsnum" where
  "targetSize config vWidth vHeight =
     (let aspectRatio = jdiv vWidth vHeight;
          referenceDimension =
            (if reference config = Some ''width'' \<or> jlt aspectRatio (Fin (7 / 10))
             then vWidth else vHeight)
      in jmul referenceDimension (logoHeightPercent config))"

text \<open>Step 3: the pair \<open>(scaledHeight, scaledWidth)\<close>.\<close>

definition scaledSize :: "logo_config \<Rightarrow> jsnum \<Rightarrow> jsnum \<Rightarrow> jsnum \<Rightarrow> jsnum \<Rightarrow> jsnum \<times> jsnum" where
  "scaledSize config vWidth vHeight originalLogoWidth originalLogoHeight =
     (let target = targetSize config vWidth vHeight;
          logoAspectRatio = jdiv originalLogoWidth originalLogoHeight
      in if jgt logoAspectRatio (Fin 1) then
           (let scaledHeight = target;
                scaledWidth = jmul target logoAspectRatio;
                maxWidth0 = jmul (jmul vWidth (Fin PHI_INVERSE)) (Fin (5 / 10));
                maxWidth =
                  (case maxWidthPercent config of
                     None \<Rightarrow> maxWidth0
                   | Some pc \<Rightarrow>
                       if truthy pc \<and> jlt (jmul vWidth pc) maxWidth0
                       then jmul vWidth pc else maxWidth0)
            in if jgt scaledWidth maxWidth
               then (jdiv maxWidth logoAspectRatio, maxWidth)
               else (scaledHeight, scaledWidth))
         else (target, jmul target logoAspectRatio))"

text \<open>Step 4: the scale and the clamped height.\<close>

definition logoScale :: "logo_config \<Rightarrow> jsnum \<Rightarrow> jsnum \<Rightarrow> jsnum \<Rightarrow> jsnum \<Rightarrow> jsnum" where
  "logoScale config vWidth vHeight originalLogoWidth originalLogoHeight =
     (let scaledHeight = fst (scaledSize config vWidth vHeight originalLogoWidth originalLogoHeight);
          logoAspectRatio = jdiv originalLogoWidth originalLogoHeight
      in jmin (jmin (jdiv scaledHeight originalLogoHeight)
                    (jdiv (maxSize config) originalLogoHeight))
              (jmul (jdiv (maxSize config) originalLogoWidth) logoAspectRatio))"

definition finalHeight :: "logo_config \<Rightarrow> jsnum \<Rightarrow> jsnum \<Rightarrow> jsnum \<Rightarrow> jsnum \<Rightarrow> jsnum" where
  "finalHeight config vWidth vHeight originalLogoWidth originalLogoHeight =
     jmax (jmin (jmul originalLogoHeight
                   (logoScale config vWidth vHeight originalLogoWidth originalLogoHeight))
                (maxSize config))
          (minSize config)"

definition finalWidth :: "logo_config \<Rightarrow> jsnum \<Rightarrow> jsnum \<Rightarrow> jsnum \<Rightarrow> jsnum \<Rightarrow> jsnum" where
  "finalWidth config vWidth vHeight originalLogoWidth originalLogoHeight =
     jmul (finalHeight config vWidth vHeight originalLogoWidth originalLogoHeight)
          (jdiv originalLogoWidth originalLogoHeight)"

record logo_size =
  width :: jsnum
  height :: jsnum
  logo_x :: jsnum
  logo_y :: jsnum
  scale :: jsnum
  size_reference :: "string option"
  targetPercentage :: jsnum

definition calculateLogoSize ::
  "string \<Rightarrow> jsnum \<Rightarrow> jsnum \<Rightarrow> jsnum \<Rightarrow> jsnum \<Rightarrow> logo_size" where
  "calculateLogoSize platform vWidth vHeight originalLogoWidth originalLogoHeight =
     (let config = config_for platform;
          fh = finalHeight config vWidth vHeight originalLogoWidth originalLogoHeight;
          fw = finalWidth config vWidth vHeight originalLogoWidth originalLogoHeight;
          position = calculateGoldenPosition vWidth vHeight fw fh ''bottom-right''
      in \<lparr>width = jround fw,
          height = jround fh,
          logo_x = jround (pos_x position),
          logo_y = jround (pos_y position),
          scale = logoScale config vWidth vHeight originalLogoWidth originalLogoHeight,
          size_reference = reference config,
          targetPercentage = jmul (logoHeightPercent config) (Fin 100)\<rparr>)"

section \<open>FFmpegRenderer\<close>

datatype error = Error string | TypeError string

record transition =
  ttype :: "string option"
  tduration :: "rat option"

record render_options =
  images :: "string list"
  voiceOver :: "string option"
  backgroundMusic :: "string option"
  logo :: "string option"
  reviewImage :: "string option"
  duration :: rat
  transition :: "transition option"

text \<open>
  The options not listed (output path, frame size, overlay sizes, preset, quality, image
  mode) do not enter the timing, the batching or the audio graph modelled here.
  A path is truthy when it is given and not the empty string.
\<close>

definition present :: "string option \<Rightarrow> bool" where
  "present s = (case s of None \<Rightarrow> False | Some t \<Rightarrow> t \<noteq> [])"

text \<open>The default of the destructuring: \<open>transition = { type: 'fade', duration: 0.5 }\<close>.\<close>

definition transitionOrDefault :: "transition option \<Rightarrow> transition" where
  "transitionOrDefault t =
     (case t of None \<Rightarrow> \<lparr>ttype = Some ''fade'', tduration = Some (5 / 10)\<rparr> | Some u \<Rightarrow> u)"

text \<open>\<open>transition.duration || 0.5\<close>: a missing or zero duration gives the default.\<close>

definition transitionDuration :: "transition \<Rightarrow> rat" where
  "transitionDuration t =
     (case tduration t of None \<Rightarrow> 5 / 10 | Some d \<Rightarrow> if d = 0 then 5 / 10 else d)"

text \<open>\<open>transition.type || 'fade'\<close>\<close>

definition transitionType :: "transition \<Rightarrow> string" where
  "transitionType t =
     (case ttype t of None \<Rightarrow> ''fade'' | Some n \<Rightarrow> if n = [] then ''fade'' else n)"

subsection \<open>buildFilterComplex\<close>

record filter_options =
  fc_images :: "string list"
  fc_duration :: rat
  fc_voiceIndex :: "nat option"
  fc_musicIndex :: "nat option"
  fc_logoIndex :: "nat option"
  fc_reviewIndex :: "nat option"
  fc_transition :: "transition option"

definition transitionCount :: "nat \<Rightarrow> int" where
  "transitionCount numSegments = max 0 (int numSegments - 1)"

definition adjustedDuration :: "filter_options \<Rightarrow> rat" where
  "adjustedDuration opts =
     (let numSegments = length (fc_images opts);
          totalTransitionTime =
            of_int (transitionCount numSegments) *
            transitionDuration (transitionOrDefault (fc_transition opts))
      in fc_duration opts + totalTransitionTime)"

definition actualImageDuration :: "filter_options \<Rightarrow> jsnum" where
  "actualImageDuration opts =
     jdiv (Fin (adjustedDuration opts)) (Fin (of_nat (length (fc_images opts))))"

text \<open>The audio section: four cases, in the order of the source.\<close>

definition audioFilters :: "nat option \<Rightarrow> nat option \<Rightarrow> rat \<Rightarrow> chain list" where
  "audioFilters voiceIndex musicIndex dur =
     (case voiceIndex of
        Some v \<Rightarrow>
          (case musicIndex of
             Some m \<Rightarrow>
               [\<lparr>ins = [AudioIn v], steps = [Adelay 1500], out = Lbl ''delayed_voice''\<rparr>,
                \<lparr>ins = [AudioIn m],
                 steps = [AfadeIn 0 (15 / 10), AfadeOut (dur - 15 / 10) (15 / 10), Volume (15 / 100)],
                 out = Lbl ''music_faded''\<rparr>,
                \<lparr>ins = [Lbl ''delayed_voice'', Lbl ''music_faded''], steps = [AmixLongest 2],
                 out = Lbl ''audio''\<rparr>]
           | None \<Rightarrow>
               [\<lparr>ins = [AudioIn v], steps = [Adelay 1500], out = Lbl ''audio''\<rparr>])
      | None \<Rightarrow>
          (case musicIndex of
             Some m \<Rightarrow>
               [\<lparr>ins = [AudioIn m],
                 steps = [AfadeIn 0 (15 / 10), AfadeOut (dur - 15 / 10) (15 / 10), Volume (3 / 10)],
                 out = Lbl ''audio''\<rparr>]
           | None \<Rightarrow>
               [\<lparr>ins = [], steps = [Anullsrc dur], out = Lbl ''audio''\<rparr>]))"

text \<open>The filters that fade a track in or out.\<close>

fun is_fade :: "ffilter \<Rightarrow> bool" where
  "is_fade (AfadeIn _ _) = True"
| "is_fade (AfadeOut _ _) = True"
| "is_fade _ = False"

text \<open>
  What \<open>buildFilterComplex\<close> decides about time and sound: one clip per image, cut by
  \<open>trim=duration=\<close> to the per-image duration; the joins, each an \<open>xfade\<close> with its
  type, duration and offset; the cut \<open>trim=0:duration\<close> of the joined video; the audio
  chains. The chains that scale each image and place the overlays are left out. With no
  image at all the source reads \<open>imageInputs[0].replace\<close> of \<open>undefined\<close> and throws.
\<close>

record xfade =
  xf_transition :: string
  xf_duration :: rat
  xf_offset :: jsnum

record filter_plan =
  clipDurations :: "jsnum list"
  xfades :: "xfade list"
  trimTo :: rat
  audioChains :: "chain list"

definition buildFilterComplex :: "filter_options \<Rightarrow> error + filter_plan" where
  "buildFilterComplex opts =
     (let tr = transitionOrDefault (fc_transition opts);
          n = length (fc_images opts);
          perImage = actualImageDuration opts
      in if n = 0 then Inl (TypeError ''Cannot read properties of undefined (reading 'replace')'')
         else Inr
           \<lparr>clipDurations = map (\<lambda>img. perImage) (fc_images opts),
            xfades =
              (if n = 1 then []
               else map (\<lambda>i. \<lparr>xf_transition = transitionType tr,
                                xf_duration = transitionDuration tr,
                                xf_offset = jsub (jmul (Fin (of_nat i)) perImage)
                                                 (Fin (transitionDuration tr))\<rparr>)
                        [1..<n]),
            trimTo = fc_duration opts,
            audioChains = audioFilters (fc_voiceIndex opts) (fc_musicIndex opts) (fc_duration opts)\<rparr>)"

subsection \<open>buildCommandChunked\<close>

record chunk =
  chunk_images :: "string list"
  startIdx :: nat
  hasOverlap :: bool

definition CHUNK_SIZE :: nat where
  "CHUNK_SIZE = 3"

definition OVERLAP :: nat where
  "OVERLAP = 1"

text \<open>The \<open>while (idx < images.length)\<close> loop, with its two variables \<open>idx\<close> and \<open>chunks\<close>.\<close>

function chunkLoop :: "string list \<Rightarrow> nat \<Rightarrow> chunk list \<Rightarrow> chunk list" where
  "chunkLoop imgs idx cs =
     (if idx < length imgs then
        (let isFirstChunk = (length cs = 0);
             overlapImages = (if \<not> isFirstChunk \<and> idx > 0 then [imgs ! (idx - OVERLAP)] else []);
             remaining = length imgs - idx;
             count = min CHUNK_SIZE remaining;
             chunkImages = overlapImages @ map (\<lambda>i. imgs ! (idx + i)) [0..<count]
         in chunkLoop imgs (idx + count)
              (cs @ [\<lparr>chunk_images = chunkImages, startIdx = idx, hasOverlap = \<not> isFirstChunk\<rparr>]))
      else cs)"
  by pat_completeness auto
termination
  by (relation "measure (\<lambda>(imgs, idx, cs). length imgs - idx)") (auto simp: CHUNK_SIZE_def)

declare chunkLoop.simps [simp del]

definition calculateChunks :: "string list \<Rightarrow> chunk list" where
  "calculateChunks imgs = chunkLoop imgs 0 []"

text \<open>
  What the loop computes, said directly: batch \<open>j\<close> starts at image \<open>3 * j\<close>, holds the
  next three images (or the ones that remain), and from the second batch on begins with
  the image before its start.
\<close>

definition chunk_at :: "string list \<Rightarrow> nat \<Rightarrow> chunk" where
  "chunk_at imgs j =
     \<lparr>chunk_images = (if j = 0 then [] else [imgs ! (3 * j - 1)]) @ take 3 (drop (3 * j) imgs),
      startIdx = 3 * j, hasOverlap = (j \<noteq> 0)\<rparr>"

definition chunkDuration :: "rat \<Rightarrow> nat \<Rightarrow> chunk \<Rightarrow> rat" where
  "chunkDuration dur imageCount c = (dur * of_nat (length (chunk_images c))) / of_nat imageCount"

text \<open>
  \<open>renderChunk\<close>: the chunk's own filter graph, with no audio and no overlay input.
  Whether the encoder then succeeds on the graph is the world's answer and not modelled.
\<close>

definition renderChunk :: "string list \<Rightarrow> rat \<Rightarrow> transition \<Rightarrow> error + filter_plan" where
  "renderChunk imgs dur tr =
     buildFilterComplex
       \<lparr>fc_images = imgs, fc_duration = dur, fc_voiceIndex = None, fc_musicIndex = None,
        fc_logoIndex = None, fc_reviewIndex = None, fc_transition = Some tr\<rparr>"

text \<open>Awaiting the renders one after the other: the first failure ends the loop.\<close>

fun sequence :: "(error + 'a) list \<Rightarrow> error + 'a list" where
  "sequence [] = Inr []"
| "sequence (Inl e # rs) = Inl e"
| "sequence (Inr v # rs) = (case sequence rs of Inl e \<Rightarrow> Inl e | Inr vs \<Rightarrow> Inr (v # vs))"

subsection \<open>concatenateChunksWithTransitions\<close>

text \<open>
  The loop \<open>for (let i = 1; i < chunkPaths.length; i++)\<close> with its variables
  \<open>outputDuration\<close> and the offsets written into \<open>filterParts\<close>. The check that every
  chunk file exists is left out: the files are the ones the renders have just written.
  With no chunk at all the source reads \<open>chunks[0].images\<close> of \<open>undefined\<close> and throws.
  Every join is written \<open>xfade=transition=fade:duration=...:offset=...\<close>: its type is
  fixed, so the plan keeps the duration and the offsets only.
\<close>

function xfadeLoop ::
  "chunk list \<Rightarrow> rat list \<Rightarrow> rat \<Rightarrow> nat \<Rightarrow> rat \<Rightarrow> rat list \<Rightarrow> rat \<times> rat list" where
  "xfadeLoop cs durs td i outputDuration offsets =
     (if i < length durs then
        (let prevChunk = cs ! (i - 1);
             overlapDuration = (durs ! (i - 1)) / of_nat (length (chunk_images prevChunk));
             offset = outputDuration - overlapDuration - td
         in xfadeLoop cs durs td (i + 1) (outputDuration + durs ! i - td) (offsets @ [offset]))
      else (outputDuration, offsets))"
  by pat_completeness auto
termination
  by (relation "measure (\<lambda>(cs, durs, td, i, outputDuration, offsets). length durs - i)") auto

declare xfadeLoop.simps [simp del]

datatype concat_plan =
    SingleChunk                    \<comment> \<open>one chunk: no join, audio and overlays only\<close>
  | XfadeChain "rat list" rat rat  \<comment> \<open>the offsets, the xfade duration, the final \<open>outputDuration\<close>\<close>

definition concatenateChunksWithTransitions ::
  "chunk list \<Rightarrow> rat list \<Rightarrow> transition option \<Rightarrow> error + concat_plan" where
  "concatenateChunksWithTransitions cs durs tr =
     (let td = (case tr of None \<Rightarrow> 5 / 10 | Some t \<Rightarrow> transitionDuration t)
      in if length durs = 1 then Inr SingleChunk
         else if durs = [] \<or> cs = [] then
           Inl (TypeError ''Cannot read properties of undefined (reading 'images')'')
         else (case xfadeLoop cs durs td 1 (durs ! 0) [] of
                 (outputDuration, offsets) \<Rightarrow> Inr (XfadeChain offsets td outputDuration)))"

record chunked_plan =
  chunks :: "chunk list"
  chunkDurations :: "rat list"
  chunkPlans :: "filter_plan list"
  concatenation :: concat_plan
  final_t :: rat

definition buildCommandChunked :: "render_options \<Rightarrow> error + chunked_plan" where
  "buildCommandChunked opts =
     (let tr = transitionOrDefault (transition opts);
          cs = calculateChunks (images opts);
          durs = map (chunkDuration (duration opts) (length (images opts))) cs
      in case sequence (map (\<lambda>c. renderChunk (chunk_images c)
                                      (chunkDuration (duration opts) (length (images opts)) c) tr) cs) of
           Inl e \<Rightarrow> Inl e
         | Inr plans \<Rightarrow>
             (case concatenateChunksWithTransitions cs durs (Some tr) of
                Inl e \<Rightarrow> Inl e
              | Inr cp \<Rightarrow>
                  Inr \<lparr>chunks = cs, chunkDurations = durs, chunkPlans = plans,
                       concatenation = cp, final_t = duration opts\<rparr>))"

subsection \<open>buildCommand\<close>

definition BATCH_THRESHOLD :: nat where
  "BATCH_THRESHOLD = 6"

definition adjustedTransition :: "nat \<Rightarrow> transition \<Rightarrow> transition" where
  "adjustedTransition n tr =
     (if n > 8 then tr\<lparr>tduration := Some (25 / 100)\<rparr>
      else if n > 5 then tr\<lparr>tduration := Some (4 / 10)\<rparr>
      else tr\<lparr>tduration := Some (6 / 10)\<rparr>)"

text \<open>The argument of the call \<open>this.buildFilterComplex({...})\<close> of the single pass.\<close>

definition singlePassOptions :: "render_options \<Rightarrow> filter_options" where
  "singlePassOptions opts =
     (let n = length (images opts);
          one = (\<lambda>s. if present s then 1 else 0 :: nat)
      in \<lparr>fc_images = images opts,
          fc_duration = duration opts,
          fc_voiceIndex = (if present (voiceOver opts) then Some n else None),
          fc_musicIndex =
            (if present (backgroundMusic opts) then Some (n + one (voiceOver opts)) else None),
          fc_logoIndex =
            (if present (logo opts)
             then Some (n + one (voiceOver opts) + one (backgroundMusic opts)) else None),
          fc_reviewIndex =
            (if present (reviewImage opts)
             then Some (n + one (voiceOver opts) + one (backgroundMusic opts) + one (logo opts))
             else None),
          fc_transition = Some (adjustedTransition n (transitionOrDefault (transition opts)))\<rparr>)"

datatype build = SinglePass filter_plan | Chunked chunked_plan

definition buildCommand :: "render_options \<Rightarrow> error + build" where
  "buildCommand opts =
     (if length (images opts) > BATCH_THRESHOLD
      then (case buildCommandChunked opts of Inl e \<Rightarrow> Inl e | Inr p \<Rightarrow> Inr (Chunked p))
      else (case buildFilterComplex (singlePassOptions opts) of
              Inl e \<Rightarrow> Inl e | Inr p \<Rightarrow> Inr (SinglePass p)))"

section \<open>PlatformTemplates\<close>

text \<open>Of a template, the fields the validation and the generator read.\<close>

record template =
  tpl_platform :: string
  resolution_width :: nat
  resolution_height :: nat
  duration_default :: nat

definition mk_template :: "string \<Rightarrow> nat \<Rightarrow> nat \<Rightarrow> nat \<Rightarrow> template" where
  "mk_template p w h d =
     \<lparr>tpl_platform = p, resolution_width = w, resolution_height = h, duration_default = d\<rparr>"

definition templates :: "(string \<times> template) list" where
  "templates =
     [(''youtube'', mk_template ''youtube'' 1920 1080 35),
      (''youtube_shorts'', mk_template ''youtube_shorts'' 1080 1920 30),
      (''instagram_reel'', mk_template ''instagram_reel'' 1080 1920 30),
      (''instagram_feed'', mk_template ''instagram_feed'' 1080 1080 15),
      (''instagram_portrait'', mk_template ''instagram_portrait'' 1080 1350 30),
      (''instagram'', mk_template ''instagram_feed'' 1080 1080 15),
      (''tiktok'', mk_template ''tiktok'' 1080 1920 30),
      (''facebook'', mk_template ''facebook'' 1920 1080 60),
      (''facebook_reels'', mk_template ''facebook_reels'' 1080 1920 30),
      (''linkedin'', mk_template ''linkedin'' 1920 1080 30),
      (''twitter_landscape'', mk_template ''twitter_landscape'' 1280 720 30),
      (''twitter_portrait'', mk_template ''twitter_portrait'' 720 1280 30),
      (''twitter_square'', mk_template ''twitter_square'' 720 720 30)]"

text \<open>\<open>this.templates[platform]\<close>: a registered template, an inherited member, or nothing.\<close>

datatype template_lookup = Registered template | Inherited | Absent

definition lookup_template :: "string \<Rightarrow> template_lookup" where
  "lookup_template platform =
     (case map_of templates platform of
        Some t \<Rightarrow> Registered t
      | None \<Rightarrow> if platform \<in> set object_prototype_names then Inherited else Absent)"

record assets =
  a_images :: "string list option"
  a_logo :: "string option"
  a_reviewImage :: "string option"
  a_voiceOver :: "string option"
  a_backgroundMusic :: "string option"

record validation =
  valid :: bool
  errors :: "string list"
  warnings :: "string list"

definition image_errors :: "assets \<Rightarrow> string list" where
  "image_errors a =
     (case a_images a of
        None \<Rightarrow> [''Minimum 3 images required'']
      | Some imgs \<Rightarrow> if length imgs < 3 then [''Minimum 3 images required''] else [])"

definition overlay_warnings :: "assets \<Rightarrow> string list" where
  "overlay_warnings a =
     (if \<not> present (a_logo a) then [''No logo provided - video will not have branding''] else []) @
     (if \<not> present (a_voiceOver a) \<and> \<not> present (a_backgroundMusic a)
      then [''No audio provided - video will be silent''] else [])"

definition validateAssets :: "string \<Rightarrow> assets \<Rightarrow> error + validation" where
  "validateAssets platform a =
     (case lookup_template platform of
        Absent \<Rightarrow>
          Inr \<lparr>valid = False,
               errors = [''No template found for platform: '' @ platform],
               warnings = []\<rparr>
      | Inherited \<Rightarrow>
          (case a_images a of
             Some imgs \<Rightarrow> Inl (TypeError ''Cannot read properties of undefined (reading 'default')'')
           | None \<Rightarrow>
               Inr \<lparr>valid = (image_errors a = []), errors = image_errors a,
                    warnings = overlay_warnings a\<rparr>)
      | Registered t \<Rightarrow>
          Inr \<lparr>valid = (image_errors a = []),
               errors = image_errors a,
               warnings = overlay_warnings a @
                 (case a_images a of
                    None \<Rightarrow> []
                  | Some imgs \<Rightarrow>
                      if length imgs * 4 < duration_default t
                      then [''Images will cycle to fill duration''] else [])\<rparr>)"

definition getTemplate :: "string \<Rightarrow> error + template" where
  "getTemplate platform =
     (case lookup_template platform of
        Absent \<Rightarrow> Inl (Error (''Unknown platform: '' @ platform))
      | Inherited \<Rightarrow> Inl (TypeError ''Cannot read properties of undefined (reading 'width')'')
      | Registered t \<Rightarrow> Inr t)"

section \<open>VideoGenerator\<close>

text \<open>
  \<open>generateVideo\<close> acts on the outside world: it probes the overlay images with
  \<open>ffprobe\<close>, creates the working directory, renders, and removes the directory. The
  model returns these effects as a list, in the order they happen, next to the result.
  What the world answers is the environment: the outcome of each probe, of \<open>mkdir\<close> and
  of the render, the clock and \<open>path.join\<close>. Console output is not an effect here,
  and the overlay sizes \<open>getTemplate\<close> attaches to the template are left out.
\<close>

datatype event = Ffprobe string | Mkdir string | RenderVideo string | Rm string

record gen_env =
  tempDir :: string
  now :: string
  path_join :: "string \<Rightarrow> string \<Rightarrow> string"
  probe :: "string \<Rightarrow> error option"
  mkdir :: "string \<Rightarrow> error option"
  renderVideo :: "template \<Rightarrow> string \<Rightarrow> error + string"

definition probeOverlay :: "gen_env \<Rightarrow> string option \<Rightarrow> event list \<times> error option" where
  "probeOverlay env s =
     (case s of
        None \<Rightarrow> ([], None)
      | Some path \<Rightarrow> if path = [] then ([], None) else ([Ffprobe path], probe env path))"

definition generateVideo ::
  "gen_env \<Rightarrow> string \<Rightarrow> assets \<Rightarrow> bool \<Rightarrow> event list \<times> (error + string)" where
  "generateVideo env platform a keepTemp =
     (case validateAssets platform a of
        Inl e \<Rightarrow> ([], Inl e)
      | Inr v \<Rightarrow>
          if \<not> valid v
          then ([], Inl (Error (''Asset validation failed: '' @ join_with '', '' (errors v))))
          else
            (case probeOverlay env (a_logo a) of
               (ev1, Some e) \<Rightarrow> (ev1, Inl e)
             | (ev1, None) \<Rightarrow>
                 (case probeOverlay env (a_reviewImage a) of
                    (ev2, Some e) \<Rightarrow> (ev1 @ ev2, Inl e)
                  | (ev2, None) \<Rightarrow>
                      (case getTemplate platform of
                         Inl e \<Rightarrow> (ev1 @ ev2, Inl e)
                       | Inr t \<Rightarrow>
                           (let workDir = path_join env (tempDir env) (now env) in
                            case mkdir env workDir of
                              Some e \<Rightarrow> (ev1 @ ev2 @ [Mkdir workDir], Inl e)
                            | None \<Rightarrow>
                                (ev1 @ ev2 @ [Mkdir workDir, RenderVideo workDir] @
                                   (if keepTemp then [] else [Rm workDir]),
                                 renderVideo env t workDir))))))"

section \<open>Properties: numbers\<close>

lemma jsnum_fin_simps:
  "jsub (Fin a) (Fin b) = Fin (a - b)"
  "b \<noteq> 0 \<Longrightarrow> jdiv (Fin a) (Fin b) = Fin (a / b)"
  "jgt (Fin a) (Fin b) = (b < a)"
  "jmin (Fin a) (Fin b) = Fin (min a b)"
  "jmax (Fin a) (Fin b) = Fin (max a b)"
  by (auto simp: jsub_def jgt_def)

subsection \<open>Rounding\<close>












section \<open>Properties: ImageHandlingModes\<close>

text \<open>The text of the two letterbox graphs is the text of the source's template literals.\<close>


lemma render_fill_filter:
  "render fmt (fill_filter p) =
     ''['' @ fmt (Fin (of_nat (inputIndex p))) @ '':v]scale='' @ fmt (videoWidth p) @ '':'' @
     fmt (videoHeight p) @ '':force_original_aspect_ratio=increase,crop='' @
     fmt (videoWidth p) @ '':'' @ fmt (videoHeight p) @ ''[letterboxed]''"
  by (simp add: render_def render_chain_def fill_filter_def)

lemma render_bars_filter:
  "render fmt (bars_filter (p\<lparr>backgroundColor := Some c\<rparr>)) =
     ''color=c='' @ c @ '':s='' @ fmt (videoWidth p) @ ''x'' @ fmt (videoHeight p) @
     ''[bg'' @ fmt (Fin (of_nat (inputIndex p))) @ ''];['' @
     fmt (Fin (of_nat (inputIndex p))) @ '':v]scale='' @ fmt (videoWidth p) @ '':'' @
     fmt (videoHeight p) @ '':force_original_aspect_ratio=decrease[img'' @
     fmt (Fin (of_nat (inputIndex p))) @ ''];[bg'' @ fmt (Fin (of_nat (inputIndex p))) @
     ''][img'' @ fmt (Fin (of_nat (inputIndex p))) @ '']overlay=(W-w)/2:(H-h)/2[letterboxed]''"
  by (simp add: render_def render_chain_def bars_filter_def)

text \<open>
  Claim C4. For positive aspect ratios \<open>a\<close> (image) and \<open>f\<close> (frame) the mismatch is
  \<open>|a - f| / f\<close>, and \<open>recommendMode\<close> answers crop-fill below \<open>0.2\<close>, blur-background
  from \<open>0.2\<close> up to but excluding \<open>0.5\<close>, and letterbox from \<open>0.5\<close> on. Both boundary
  values belong to the upper side: an image exactly 20% off the frame (wider or narrower)
  gets blur-background, one exactly 50% off gets letterbox.
\<close>

theorem recommendMode_thresholds:
  assumes "0 < a" and "0 < f"
  shows "mismatchRatio (Fin a) (Fin f) = Fin (\<bar>a - f\<bar> / f) \<and>
         recommendMode (Fin a) (Fin f) =
           (if \<bar>a - f\<bar> / f < 2 / 10 then CROP_FILL
            else if \<bar>a - f\<bar> / f < 5 / 10 then BLUR_BACKGROUND
            else LETTERBOX) \<and>
         recommendMode (Fin (f + f * (2 / 10))) (Fin f) = BLUR_BACKGROUND \<and>
         recommendMode (Fin (f - f * (2 / 10))) (Fin f) = BLUR_BACKGROUND \<and>
         recommendMode (Fin (f + f * (5 / 10))) (Fin f) = LETTERBOX \<and>
         recommendMode (Fin (f - f * (5 / 10))) (Fin f) = LETTERBOX"
proof -
  have m: "mismatchRatio (Fin b) (Fin f) = Fin (\<bar>b - f\<bar> / f)" for b
    using assms(2) by (simp add: mismatchRatio_def jsnum_fin_simps)
  have up: "\<bar>(f + f * q) - f\<bar> / f = q" if "0 \<le> q" for q
  proof -
    have "\<bar>(f + f * q) - f\<bar> = f * q" using assms(2) that by simp
    then show ?thesis using assms(2) by simp
  qed
  have down: "\<bar>(f - f * q) - f\<bar> / f = q" if "0 \<le> q" for q
  proof -
    have "\<bar>(f - f * q) - f\<bar> = f * q" using assms(2) that by simp
    then show ?thesis using assms(2) by simp
  qed
  have mu: "mismatchRatio (Fin (f + f * q)) (Fin f) = Fin q" if "0 \<le> q" for q
    by (simp only: m up [OF that])
  have md: "mismatchRatio (Fin (f - f * q)) (Fin f) = Fin q" if "0 \<le> q" for q
    by (simp only: m down [OF that])
  have q2: "(0::rat) \<le> 2 / 10" and q5: "(0::rat) \<le> 5 / 10" by simp_all
  have b1: "recommendMode (Fin (f + f * (2 / 10))) (Fin f) = BLUR_BACKGROUND"
    unfolding recommendMode_def mu [OF q2] by simp
  have b2: "recommendMode (Fin (f - f * (2 / 10))) (Fin f) = BLUR_BACKGROUND"
    unfolding recommendMode_def md [OF q2] by simp
  have b3: "recommendMode (Fin (f + f * (5 / 10))) (Fin f) = LETTERBOX"
    unfolding recommendMode_def mu [OF q5] by simp
  have b4: "recommendMode (Fin (f - f * (5 / 10))) (Fin f) = LETTERBOX"
    unfolding recommendMode_def md [OF q5] by simp
  have c: "recommendMode (Fin a) (Fin f) =
           (if \<bar>a - f\<bar> / f < 2 / 10 then CROP_FILL
            else if \<bar>a - f\<bar> / f < 5 / 10 then BLUR_BACKGROUND
            else LETTERBOX)"
    unfolding recommendMode_def m by simp
  show ?thesis using m [of a] b1 b2 b3 b4 c by blast
qed

theorem recommendMode_thresholds_witness:
  "(0::rat) < 6 / 5 \<and> (0::rat) < 1 \<and> mismatchRatio (Fin (6 / 5)) (Fin 1) = Fin (1 / 5) \<and>
   recommendMode (Fin (6 / 5)) (Fin 1) = BLUR_BACKGROUND"
  using recommendMode_thresholds [of "6 / 5" 1] by simp







section \<open>Properties: MathematicalSizing\<close>

text \<open>
  Every declared platform has finite numbers, whole pixel bounds with \<open>minSize \<le> maxSize\<close>,
  and a finite width cap if it has one.
\<close>

lemma declared_config_table:
  assumes "map_of PLATFORM_CONFIGS platform = Some c"
  shows "(minSize c, maxSize c) \<in>
           {(Fin 80, Fin 200), (Fin 100, Fin 200), (Fin 100, Fin 250), (Fin 70, Fin 180)} \<and>
         is_fin (logoHeightPercent c) \<and>
         (case maxWidthPercent c of None \<Rightarrow> True | Some q \<Rightarrow> is_fin q)"
proof -
  have "c \<in> snd ` set PLATFORM_CONFIGS"
    using map_of_SomeD [OF assms] by force
  then show ?thesis
    unfolding PLATFORM_CONFIGS_def by auto
qed

lemma declared_config:
  assumes "map_of PLATFORM_CONFIGS platform = Some c"
  shows "\<exists>pc lo hi. logoHeightPercent c = Fin pc \<and> minSize c = Fin (of_int lo) \<and>
           maxSize c = Fin (of_int hi) \<and> lo \<le> hi \<and> 0 < lo \<and>
           (maxWidthPercent c = None \<or> (\<exists>q. maxWidthPercent c = Some (Fin q)))"
proof -
  note t = declared_config_table [OF assms]
  obtain pc where pc: "logoHeightPercent c = Fin pc"
    using t by (cases "logoHeightPercent c") auto
  have w: "maxWidthPercent c = None \<or> (\<exists>q. maxWidthPercent c = Some (Fin q))"
  proof (cases "maxWidthPercent c")
    case None
    then show ?thesis by simp
  next
    case (Some q)
    then have "is_fin q" using t by simp
    then show ?thesis using Some by (cases q) auto
  qed
  from t consider "minSize c = Fin 80 \<and> maxSize c = Fin 200"
    | "minSize c = Fin 100 \<and> maxSize c = Fin 200"
    | "minSize c = Fin 100 \<and> maxSize c = Fin 250"
    | "minSize c = Fin 70 \<and> maxSize c = Fin 180"
    by auto
  then show ?thesis
  proof cases
    case 1
    then show ?thesis using pc w by (intro exI [of _ pc] exI [of _ 80] exI [of _ 200]) simp
  next
    case 2
    then show ?thesis using pc w by (intro exI [of _ pc] exI [of _ 100] exI [of _ 200]) simp
  next
    case 3
    then show ?thesis using pc w by (intro exI [of _ pc] exI [of _ 100] exI [of _ 250]) simp
  next
    case 4
    then show ?thesis using pc w by (intro exI [of _ pc] exI [of _ 70] exI [of _ 180]) simp
  qed
qed

lemma is_finE:
  assumes "is_fin v"
  obtains m where "v = Fin m"
  using assms by (cases v) auto

lemma targetSize_fin:
  assumes "logoHeightPercent c = Fin pc"
  shows "\<exists>t. targetSize c (Fin a) (Fin b) = Fin t"
  using assms by (simp add: targetSize_def Let_def)

lemma scaledSize_fin:
  assumes "logoHeightPercent c = Fin pc"
    and "maxWidthPercent c = None \<or> (\<exists>q. maxWidthPercent c = Some (Fin q))"
    and "0 < W" and "0 < H"
  shows "\<exists>sh sw. scaledSize c (Fin a) (Fin b) (Fin W) (Fin H) = (Fin sh, Fin sw)"
proof -
  obtain t where t: "targetSize c (Fin a) (Fin b) = Fin t"
    using targetSize_fin [OF assms(1)] by blast
  have r: "jdiv (Fin W) (Fin H) = Fin (W / H)" and rn: "W / H \<noteq> 0"
    using assms(3,4) by (simp_all add: jsnum_fin_simps)
  have "is_fin (case maxWidthPercent c of
                 None \<Rightarrow> jmul (jmul (Fin a) (Fin PHI_INVERSE)) (Fin (5 / 10))
               | Some pc \<Rightarrow>
                   if truthy pc \<and> jlt (jmul (Fin a) pc) (jmul (jmul (Fin a) (Fin PHI_INVERSE)) (Fin (5 / 10)))
                   then jmul (Fin a) pc else jmul (jmul (Fin a) (Fin PHI_INVERSE)) (Fin (5 / 10)))"
    using assms(2) by auto
  then obtain m where m: "(case maxWidthPercent c of
                 None \<Rightarrow> jmul (jmul (Fin a) (Fin PHI_INVERSE)) (Fin (5 / 10))
               | Some pc \<Rightarrow>
                   if truthy pc \<and> jlt (jmul (Fin a) pc) (jmul (jmul (Fin a) (Fin PHI_INVERSE)) (Fin (5 / 10)))
                   then jmul (Fin a) pc else jmul (jmul (Fin a) (Fin PHI_INVERSE)) (Fin (5 / 10))) = Fin m"
    by (rule is_finE)
  show ?thesis
    unfolding scaledSize_def Let_def t r m
    using rn by (simp add: jsnum_fin_simps)
qed

lemma logoScale_fin:
  assumes "logoHeightPercent c = Fin pc" and "maxSize c = Fin hi"
    and "maxWidthPercent c = None \<or> (\<exists>q. maxWidthPercent c = Some (Fin q))"
    and "0 < W" and "0 < H"
  shows "\<exists>s. logoScale c (Fin a) (Fin b) (Fin W) (Fin H) = Fin s"
proof -
  obtain sh sw where s: "scaledSize c (Fin a) (Fin b) (Fin W) (Fin H) = (Fin sh, Fin sw)"
    using scaledSize_fin [OF assms(1,3,4,5)] by blast
  show ?thesis
    unfolding logoScale_def Let_def s assms(2)
    using assms(4,5) by (simp add: jsnum_fin_simps)
qed

lemma finalHeight_clamped:
  assumes "logoHeightPercent c = Fin pc" and "minSize c = Fin lo" and "maxSize c = Fin hi"
    and "maxWidthPercent c = None \<or> (\<exists>q. maxWidthPercent c = Some (Fin q))"
    and "0 < W" and "0 < H"
  shows "\<exists>s. logoScale c (Fin a) (Fin b) (Fin W) (Fin H) = Fin s \<and>
             finalHeight c (Fin a) (Fin b) (Fin W) (Fin H) = Fin (max (min (H * s) hi) lo)"
proof -
  obtain s where s: "logoScale c (Fin a) (Fin b) (Fin W) (Fin H) = Fin s"
    using logoScale_fin [OF assms(1,3,4,5,6)] by blast
  show ?thesis
    unfolding finalHeight_def s assms(2,3) by (simp add: jsnum_fin_simps)
qed

lemma round_between:
  fixes v :: rat
  assumes "of_int lo \<le> v" and "v \<le> of_int hi"
  shows "lo \<le> \<lfloor>v + 1 / 2\<rfloor>" and "\<lfloor>v + 1 / 2\<rfloor> \<le> hi"
proof -
  have "of_int lo \<le> v + 1 / 2" using assms(1) by simp
  then show "lo \<le> \<lfloor>v + 1 / 2\<rfloor>" by (simp add: le_floor_iff)
  have "v + 1 / 2 < of_int (hi + 1)" using assms(2) by simp
  then have "\<lfloor>v + 1 / 2\<rfloor> < hi + 1" by (simp only: floor_less_iff)
  then show "\<lfloor>v + 1 / 2\<rfloor> \<le> hi" by simp
qed

lemma round_near:
  fixes v :: rat
  shows "\<bar>of_int \<lfloor>v + 1 / 2\<rfloor> - v\<bar> \<le> 1 / 2"
proof -
  have a: "of_int \<lfloor>v + 1 / 2\<rfloor> \<le> v + 1 / 2" by (rule of_int_floor_le)
  have b: "v + 1 / 2 < of_int \<lfloor>v + 1 / 2\<rfloor> + 1"
    using floor_correct [of "v + 1 / 2"] by simp
  show ?thesis using a b by linarith
qed


lemma ratio_tolerance:
  fixes w h fh r :: rat
  assumes "\<bar>h - fh\<bar> \<le> 1 / 2" and "\<bar>w - fh * r\<bar> \<le> 1 / 2" and "0 < r" and "0 < h"
  shows "\<bar>w / h - r\<bar> \<le> (1 + r) / (2 * h)"
proof -
  have "\<bar>(fh - h) * r\<bar> = \<bar>fh - h\<bar> * r"
    using assms(3) by (simp add: abs_mult)
  also have "\<dots> \<le> (1 / 2) * r"
    using assms(1,3) by (intro mult_right_mono) (simp_all add: abs_minus_commute)
  finally have a: "\<bar>(fh - h) * r\<bar> \<le> r / 2" by simp
  have "w - h * r = (w - fh * r) + (fh - h) * r" by (simp add: algebra_simps)
  then have "\<bar>w - h * r\<bar> \<le> \<bar>w - fh * r\<bar> + \<bar>(fh - h) * r\<bar>"
    by (simp only: abs_triangle_ineq)
  then have b: "\<bar>w - h * r\<bar> \<le> (1 + r) / 2"
    using a assms(2) by (simp add: add_divide_distrib)
  have "w / h - r = (w - h * r) / h"
    using assms(4) by (simp add: diff_divide_distrib)
  then have "\<bar>w / h - r\<bar> = \<bar>w - h * r\<bar> / h"
    using assms(4) by (simp add: abs_divide)
  also have "\<dots> \<le> ((1 + r) / 2) / h"
    using b assms(4) by (intro divide_right_mono) simp_all
  finally show ?thesis by (simp add: mult.commute)
qed


text \<open>
  Claim C6. For every platform declared in \<open>PLATFORM_CONFIGS\<close>, every finite frame size and
  every logo of positive width \<open>W\<close> and height \<open>H\<close>: the height before rounding is
  \<open>max (min (H * scale) maxSize) minSize\<close>, the lower bound being applied last; the width
  before rounding is that height times \<open>W / H\<close>; the returned height and width are these
  two values rounded to the nearest pixel; the returned height lies in \<open>[minSize, maxSize]\<close>;
  and the returned width over the returned height differs from \<open>W / H\<close> by at most
  \<open>(1 + W / H) / (2 * height)\<close>, which is what the two roundings can add.
\<close>

theorem calculateLogoSize_clamped:
  assumes "platform \<in> fst ` set PLATFORM_CONFIGS" and "0 < W" and "0 < H"
  shows "\<exists>lo hi s fh w h.
           minSize (config_for platform) = Fin lo \<and> maxSize (config_for platform) = Fin hi \<and>
           lo \<le> hi \<and>
           logoScale (config_for platform) (Fin vw) (Fin vh) (Fin W) (Fin H) = Fin s \<and>
           finalHeight (config_for platform) (Fin vw) (Fin vh) (Fin W) (Fin H) = Fin fh \<and>
           fh = max (min (H * s) hi) lo \<and>
           finalWidth (config_for platform) (Fin vw) (Fin vh) (Fin W) (Fin H) = Fin (fh * (W / H)) \<and>
           height (calculateLogoSize platform (Fin vw) (Fin vh) (Fin W) (Fin H)) = Fin h \<and>
           width (calculateLogoSize platform (Fin vw) (Fin vh) (Fin W) (Fin H)) = Fin w \<and>
           lo \<le> h \<and> h \<le> hi \<and>
           \<bar>h - fh\<bar> \<le> 1 / 2 \<and> \<bar>w - fh * (W / H)\<bar> \<le> 1 / 2 \<and>
           \<bar>w / h - W / H\<bar> \<le> (1 + W / H) / (2 * h)"
proof -
  obtain c where c: "map_of PLATFORM_CONFIGS platform = Some c"
    using assms(1) by (cases "map_of PLATFORM_CONFIGS platform") (auto simp: map_of_eq_None_iff)
  then have cf: "config_for platform = c"
    by (simp add: config_for_def)
  obtain pc lo hi where cfg: "logoHeightPercent c = Fin pc" "minSize c = Fin (of_int lo)"
      "maxSize c = Fin (of_int hi)" "lo \<le> hi" "0 < lo"
      "maxWidthPercent c = None \<or> (\<exists>q. maxWidthPercent c = Some (Fin q))"
    using declared_config [OF c] by blast
  obtain s where s: "logoScale c (Fin vw) (Fin vh) (Fin W) (Fin H) = Fin s"
    and fh: "finalHeight c (Fin vw) (Fin vh) (Fin W) (Fin H) =
             Fin (max (min (H * s) (of_int hi)) (of_int lo))"
    using finalHeight_clamped [OF cfg(1,2,3,6) assms(2,3)] by blast
  define v where "v = max (min (H * s) (rat_of_int hi)) (of_int lo)"
  have lo_v: "of_int lo \<le> v" and v_hi: "v \<le> of_int hi"
    using cfg(4) by (simp_all add: v_def)
  define h where "h = rat_of_int \<lfloor>v + 1 / 2\<rfloor>"
  define w where "w = rat_of_int \<lfloor>v * (W / H) + 1 / 2\<rfloor>"
  have r: "jdiv (Fin W) (Fin H) = Fin (W / H)"
    using assms(3) by (simp add: jsnum_fin_simps)
  have fw: "finalWidth c (Fin vw) (Fin vh) (Fin W) (Fin H) = Fin (v * (W / H))"
    unfolding finalWidth_def fh r by (simp add: v_def)
  have hh: "height (calculateLogoSize platform (Fin vw) (Fin vh) (Fin W) (Fin H)) = Fin h"
    unfolding calculateLogoSize_def Let_def cf fh by (simp add: h_def v_def)
  have ww: "width (calculateLogoSize platform (Fin vw) (Fin vh) (Fin W) (Fin H)) = Fin w"
    unfolding calculateLogoSize_def Let_def cf fw by (simp add: w_def)
  have h_lo: "of_int lo \<le> h" and h_hi: "h \<le> of_int hi"
    using round_between [OF lo_v v_hi] by (simp_all add: h_def)
  have h_pos: "0 < h" using h_lo cfg(5) by (simp add: order_less_le_trans)
  have near_h: "\<bar>h - v\<bar> \<le> 1 / 2" unfolding h_def by (rule round_near)
  have near_w: "\<bar>w - v * (W / H)\<bar> \<le> 1 / 2" unfolding w_def by (rule round_near)
  have ratio: "\<bar>w / h - W / H\<bar> \<le> (1 + W / H) / (2 * h)"
    using near_h near_w assms(2,3) h_pos by (intro ratio_tolerance [of h v w]) simp_all
  have lohi: "rat_of_int lo \<le> of_int hi" using cfg(4) by simp
  have fhv: "finalHeight c (Fin vw) (Fin vh) (Fin W) (Fin H) = Fin v"
    using fh by (simp only: v_def)
  show ?thesis
    unfolding cf
  proof (intro exI conjI)
    show "minSize c = Fin (of_int lo)" by (rule cfg(2))
    show "maxSize c = Fin (of_int hi)" by (rule cfg(3))
    show "rat_of_int lo \<le> of_int hi" by (rule lohi)
    show "logoScale c (Fin vw) (Fin vh) (Fin W) (Fin H) = Fin s" by (rule s)
    show "finalHeight c (Fin vw) (Fin vh) (Fin W) (Fin H) = Fin v" by (rule fhv)
    show "v = max (min (H * s) (of_int hi)) (of_int lo)" by (rule v_def)
    show "finalWidth c (Fin vw) (Fin vh) (Fin W) (Fin H) = Fin (v * (W / H))" by (rule fw)
    show "height (calculateLogoSize platform (Fin vw) (Fin vh) (Fin W) (Fin H)) = Fin h"
      by (rule hh)
    show "width (calculateLogoSize platform (Fin vw) (Fin vh) (Fin W) (Fin H)) = Fin w"
      by (rule ww)
    show "of_int lo \<le> h" by (rule h_lo)
    show "h \<le> of_int hi" by (rule h_hi)
    show "\<bar>h - v\<bar> \<le> 1 / 2" by (rule near_h)
    show "\<bar>w - v * (W / H)\<bar> \<le> 1 / 2" by (rule near_w)
    show "\<bar>w / h - W / H\<bar> \<le> (1 + W / H) / (2 * h)" by (rule ratio)
  qed
qed


theorem calculateLogoSize_clamped_witness:
  "''youtube'' \<in> fst ` set PLATFORM_CONFIGS \<and> (0::rat) < 400 \<and> (0::rat) < 200 \<and>
   (\<exists>lo hi s fh w h.
      minSize (config_for ''youtube'') = Fin lo \<and> maxSize (config_for ''youtube'') = Fin hi \<and>
      lo \<le> hi \<and>
      logoScale (config_for ''youtube'') (Fin 1920) (Fin 1080) (Fin 400) (Fin 200) = Fin s \<and>
      finalHeight (config_for ''youtube'') (Fin 1920) (Fin 1080) (Fin 400) (Fin 200) = Fin fh \<and>
      fh = max (min (200 * s) hi) lo \<and>
      finalWidth (config_for ''youtube'') (Fin 1920) (Fin 1080) (Fin 400) (Fin 200) =
        Fin (fh * (400 / 200)) \<and>
      height (calculateLogoSize ''youtube'' (Fin 1920) (Fin 1080) (Fin 400) (Fin 200)) = Fin h \<and>
      width (calculateLogoSize ''youtube'' (Fin 1920) (Fin 1080) (Fin 400) (Fin 200)) = Fin w \<and>
      lo \<le> h \<and> h \<le> hi \<and>
      \<bar>h - fh\<bar> \<le> 1 / 2 \<and> \<bar>w - fh * (400 / 200)\<bar> \<le> 1 / 2 \<and>
      \<bar>w / h - 400 / 200\<bar> \<le> (1 + 400 / 200) / (2 * h)) \<and>
   height (calculateLogoSize ''youtube'' (Fin 1920) (Fin 1080) (Fin 400) (Fin 200)) = Fin 90 \<and>
   width (calculateLogoSize ''youtube'' (Fin 1920) (Fin 1080) (Fin 400) (Fin 200)) = Fin 180"
proof (intro conjI)
  show p: "''youtube'' \<in> fst ` set PLATFORM_CONFIGS"
    by (simp add: PLATFORM_CONFIGS_def)
  show w: "(0::rat) < 400" and h: "(0::rat) < 200" by simp_all
  show "\<exists>lo hi s fh w h.
      minSize (config_for ''youtube'') = Fin lo \<and> maxSize (config_for ''youtube'') = Fin hi \<and>
      lo \<le> hi \<and>
      logoScale (config_for ''youtube'') (Fin 1920) (Fin 1080) (Fin 400) (Fin 200) = Fin s \<and>
      finalHeight (config_for ''youtube'') (Fin 1920) (Fin 1080) (Fin 400) (Fin 200) = Fin fh \<and>
      fh = max (min (200 * s) hi) lo \<and>
      finalWidth (config_for ''youtube'') (Fin 1920) (Fin 1080) (Fin 400) (Fin 200) =
        Fin (fh * (400 / 200)) \<and>
      height (calculateLogoSize ''youtube'' (Fin 1920) (Fin 1080) (Fin 400) (Fin 200)) = Fin h \<and>
      width (calculateLogoSize ''youtube'' (Fin 1920) (Fin 1080) (Fin 400) (Fin 200)) = Fin w \<and>
      lo \<le> h \<and> h \<le> hi \<and>
      \<bar>h - fh\<bar> \<le> 1 / 2 \<and> \<bar>w - fh * (400 / 200)\<bar> \<le> 1 / 2 \<and>
      \<bar>w / h - 400 / 200\<bar> \<le> (1 + 400 / 200) / (2 * h)"
    by (rule calculateLogoSize_clamped [OF p w h])
  show "height (calculateLogoSize ''youtube'' (Fin 1920) (Fin 1080) (Fin 400) (Fin 200)) = Fin 90"
    by code_simp
  show "width (calculateLogoSize ''youtube'' (Fin 1920) (Fin 1080) (Fin 400) (Fin 200)) = Fin 180"
    by code_simp
qed

section \<open>Properties: FFmpegRenderer\<close>

subsection \<open>The batches\<close>

lemma new_images_window:
  "map (\<lambda>i. xs ! (idx + i)) [0..<min 3 (length xs - idx)] = take 3 (drop idx xs)"
  by (rule nth_equalityI) (auto simp: min_def split: if_splits)

lemma chunkLoop_stop:
  "\<not> idx < length imgs \<Longrightarrow> chunkLoop imgs idx cs = cs"
  by (subst chunkLoop.simps) simp

lemma chunkLoop_unfold:
  "chunkLoop imgs (3 * j) cs =
     (if 3 * j < length imgs
      then chunkLoop imgs (3 * j + min 3 (length imgs - 3 * j))
             (cs @ [\<lparr>chunk_images =
                       (if length cs \<noteq> 0 \<and> 3 * j > 0 then [imgs ! (3 * j - 1)] else []) @
                       take 3 (drop (3 * j) imgs),
                     startIdx = 3 * j, hasOverlap = (length cs \<noteq> 0)\<rparr>])
      else cs)"
  by (subst chunkLoop.simps) (simp add: Let_def CHUNK_SIZE_def OVERLAP_def new_images_window)

lemma chunkLoop_chunks:
  assumes "length cs = j"
  shows "chunkLoop imgs (3 * j) cs = cs @ map (chunk_at imgs) [j..<(length imgs + 2) div 3]"
  using assms
proof (induction "length imgs - 3 * j" arbitrary: j cs rule: less_induct)
  case less
  show ?case
  proof (cases "3 * j < length imgs")
    case False
    then have "(length imgs + 2) div 3 \<le> j" by linarith
    then show ?thesis using False by (simp add: chunkLoop_stop)
  next
    case True
    show ?thesis
    proof (cases "length imgs - 3 * j < 3")
      case short: True
      then have k: "(length imgs + 2) div 3 = Suc j" using True by linarith
      have stop: "\<not> 3 * j + min 3 (length imgs - 3 * j) < length imgs" using short True by simp
      have "chunkLoop imgs (3 * j) cs =
              chunkLoop imgs (3 * j + min 3 (length imgs - 3 * j)) (cs @ [chunk_at imgs j])"
        using True less.prems by (subst chunkLoop_unfold) (auto simp: chunk_at_def)
      also have "\<dots> = cs @ [chunk_at imgs j]"
        using stop by (rule chunkLoop_stop)
      finally have "chunkLoop imgs (3 * j) cs = cs @ [chunk_at imgs j]" .
      then show ?thesis unfolding k by simp
    next
      case long: False
      then have m: "3 * j + min 3 (length imgs - 3 * j) = 3 * Suc j" by simp
      have jk: "j < (length imgs + 2) div 3" using True by linarith
      have "chunkLoop imgs (3 * j) cs =
              chunkLoop imgs (3 * j + min 3 (length imgs - 3 * j)) (cs @ [chunk_at imgs j])"
        using True less.prems by (subst chunkLoop_unfold) (auto simp: chunk_at_def)
      also have "\<dots> = chunkLoop imgs (3 * Suc j) (cs @ [chunk_at imgs j])"
        by (simp only: m)
      also have "\<dots> = (cs @ [chunk_at imgs j]) @ map (chunk_at imgs) [Suc j..<(length imgs + 2) div 3]"
        using True long less.prems by (intro less.hyps) simp_all
      finally show ?thesis using jk by (simp add: upt_conv_Cons)
    qed
  qed
qed

lemma calculateChunks_eq:
  "calculateChunks imgs = map (chunk_at imgs) [0..<(length imgs + 2) div 3]"
  using chunkLoop_chunks [of "[]" 0 imgs] by (simp add: calculateChunks_def)


lemma chunk_at_length:
  "length (chunk_images (chunk_at imgs j)) = (if j = 0 then 0 else 1) + min 3 (length imgs - 3 * j)"
  by (simp add: chunk_at_def min.commute)

lemma chunk_lengths_sum:
  "sum_list (map (\<lambda>j. length (chunk_images (chunk_at imgs j))) [0..<k]) =
     (k - 1) + min (length imgs) (3 * k)"
proof (induction k)
  case 0
  show ?case by simp
next
  case (Suc k)
  have "sum_list (map (\<lambda>j. length (chunk_images (chunk_at imgs j))) [0..<Suc k]) =
          sum_list (map (\<lambda>j. length (chunk_images (chunk_at imgs j))) [0..<k]) +
          length (chunk_images (chunk_at imgs k))"
    by simp
  also have "\<dots> = (k - 1) + min (length imgs) (3 * k) +
                    ((if k = 0 then 0 else 1) + min 3 (length imgs - 3 * k))"
    by (simp only: Suc.IH) (simp only: chunk_at_length)
  also have "\<dots> = (Suc k - 1) + min (length imgs) (3 * Suc k)"
    by (auto simp: min_def)
  finally show ?case .
qed

lemma chunk_lengths_total:
  assumes "imgs \<noteq> []"
  shows "sum_list (map (\<lambda>c. length (chunk_images c)) (calculateChunks imgs)) =
           length imgs + (length (calculateChunks imgs) - 1)"
proof -
  have "min (length imgs) (3 * ((length imgs + 2) div 3)) = length imgs" by linarith
  then show ?thesis
    using chunk_lengths_sum [of imgs "(length imgs + 2) div 3"]
    by (simp add: calculateChunks_eq comp_def)
qed

lemma chunk_nonempty:
  assumes "c \<in> set (calculateChunks imgs)"
  shows "chunk_images c \<noteq> []"
proof -
  obtain j where j: "j < (length imgs + 2) div 3" and c: "c = chunk_at imgs j"
    using assms by (auto simp: calculateChunks_eq)
  have "3 * j < length imgs" using j by linarith
  then have "0 < length (chunk_images c)" unfolding c chunk_at_length by simp
  then show ?thesis by simp
qed

lemma sum_scaled:
  fixes a b :: rat
  shows "sum_list (map (\<lambda>x. a * of_nat (f x) / b) xs) = a * of_nat (sum_list (map f xs)) / b"
  by (induction xs) (simp_all add: algebra_simps add_divide_distrib)

lemma sequence_ok:
  assumes "\<forall>x \<in> set xs. f x = Inr (g x)"
  shows "sequence (map f xs) = Inr (map g xs)"
  using assms by (induction xs) simp_all

lemma buildFilterComplex_ok:
  assumes "fc_images fo \<noteq> []"
  shows "buildFilterComplex fo = Inr (projr (buildFilterComplex fo))"
  using assms by (simp add: buildFilterComplex_def Let_def)

lemma renderChunk_ok:
  assumes "imgs \<noteq> []"
  shows "renderChunk imgs d tr = Inr (projr (renderChunk imgs d tr))"
  unfolding renderChunk_def using assms by (intro buildFilterComplex_ok) simp

lemma xfadeLoop_stop:
  "\<not> i < length durs \<Longrightarrow> xfadeLoop cs durs td i out' offs = (out', offs)"
  by (subst xfadeLoop.simps) simp

lemma xfadeLoop_step:
  "i < length durs \<Longrightarrow>
   xfadeLoop cs durs td i out' offs =
     xfadeLoop cs durs td (i + 1) (out' + durs ! i - td)
       (offs @ [out' - durs ! (i - 1) / of_nat (length (chunk_images (cs ! (i - 1)))) - td])"
  by (subst xfadeLoop.simps) (simp add: Let_def)

lemma xfadeLoop_closed:
  assumes "1 \<le> i" and "i \<le> length durs"
    and "out' = sum_list (take i durs) - of_nat (i - 1) * td"
  shows "xfadeLoop cs durs td i out' offs =
           (sum_list durs - of_nat (length durs - 1) * td,
            offs @ map (\<lambda>m. sum_list (take m durs) - of_nat (m - 1) * td -
                            durs ! (m - 1) / of_nat (length (chunk_images (cs ! (m - 1)))) - td)
                       [i..<length durs])"
  using assms
proof (induction "length durs - i" arbitrary: i out' offs rule: less_induct)
  case less
  show ?case
  proof (cases "i < length durs")
    case False
    then have "i = length durs" using less.prems(2) by simp
    then show ?thesis using less.prems(3) by (simp add: xfadeLoop_stop)
  next
    case True
    have nxt: "out' + durs ! i - td = sum_list (take (i + 1) durs) - of_nat (i + 1 - 1) * td"
      using True less.prems(1,3) by (simp add: take_Suc_conv_app_nth of_nat_diff algebra_simps)
    have "xfadeLoop cs durs td i out' offs =
            xfadeLoop cs durs td (i + 1) (out' + durs ! i - td)
              (offs @ [out' - durs ! (i - 1) / of_nat (length (chunk_images (cs ! (i - 1)))) - td])"
      using True by (rule xfadeLoop_step)
    also have "\<dots> =
            (sum_list durs - of_nat (length durs - 1) * td,
             (offs @ [out' - durs ! (i - 1) / of_nat (length (chunk_images (cs ! (i - 1)))) - td]) @
             map (\<lambda>m. sum_list (take m durs) - of_nat (m - 1) * td -
                       durs ! (m - 1) / of_nat (length (chunk_images (cs ! (m - 1)))) - td)
                 [i + 1..<length durs])"
      using True nxt by (intro less.hyps) simp_all
    finally show ?thesis
      using True less.prems(3) by (simp add: upt_conv_Cons)
  qed
qed


lemma calculateChunks_length:
  "length (calculateChunks imgs) = (length imgs + 2) div 3"
  by (simp add: calculateChunks_eq)

lemma overlap_duration:
  assumes "c \<in> set (calculateChunks imgs)" and "imgs \<noteq> []"
  shows "chunkDuration d (length imgs) c / of_nat (length (chunk_images c)) = d / of_nat (length imgs)"
  using chunk_nonempty [OF assms(1)] assms(2) by (simp add: chunkDuration_def)

lemma chunk_durations_sum:
  assumes "imgs \<noteq> []"
  shows "sum_list (map (chunkDuration d (length imgs)) (calculateChunks imgs)) =
           d + (of_nat (length (calculateChunks imgs)) - 1) * (d / of_nat (length imgs))"
proof -
  let ?k = "length (calculateChunks imgs)"
  have k: "1 \<le> ?k" using assms unfolding calculateChunks_length
    by (cases imgs) simp_all
  have "sum_list (map (chunkDuration d (length imgs)) (calculateChunks imgs)) =
          d * of_nat (sum_list (map (\<lambda>c. length (chunk_images c)) (calculateChunks imgs))) /
          of_nat (length imgs)"
    unfolding chunkDuration_def by (rule sum_scaled)
  also have "\<dots> = d * of_nat (length imgs + (?k - 1)) / of_nat (length imgs)"
    by (simp only: chunk_lengths_total [OF assms])
  also have "\<dots> = d + (of_nat ?k - 1) * (d / of_nat (length imgs))"
    using assms k by (simp add: of_nat_diff field_simps)
  finally show ?thesis .
qed

lemma buildCommandChunked_plan:
  assumes "3 < length (images opts)"
  defines "tr \<equiv> transitionOrDefault (transition opts)"
    and "cs \<equiv> calculateChunks (images opts)"
    and "durs \<equiv> map (chunkDuration (duration opts) (length (images opts))) (calculateChunks (images opts))"
  shows "buildCommandChunked opts =
    Inr \<lparr>chunks = cs, chunkDurations = durs,
         chunkPlans = map (\<lambda>c. projr (renderChunk (chunk_images c)
                             (chunkDuration (duration opts) (length (images opts)) c) tr)) cs,
         concatenation =
           XfadeChain
             (map (\<lambda>m. sum_list (take m durs) - of_nat (m - 1) * transitionDuration tr -
                        duration opts / of_nat (length (images opts)) - transitionDuration tr)
                  [1..<length cs])
             (transitionDuration tr)
             (sum_list durs - of_nat (length cs - 1) * transitionDuration tr),
         final_t = duration opts\<rparr>"
proof -
  have ne: "images opts \<noteq> []" using assms(1) by auto
  have k: "2 \<le> length cs" using assms(1) unfolding cs_def calculateChunks_length by linarith
  have ld: "length durs = length cs" by (simp add: durs_def cs_def)
  have seq: "sequence (map (\<lambda>c. renderChunk (chunk_images c)
                 (chunkDuration (duration opts) (length (images opts)) c) tr) cs) =
             Inr (map (\<lambda>c. projr (renderChunk (chunk_images c)
                 (chunkDuration (duration opts) (length (images opts)) c) tr)) cs)"
  proof (rule sequence_ok, rule ballI)
    fix c assume "c \<in> set cs"
    then have "chunk_images c \<noteq> []" unfolding cs_def by (rule chunk_nonempty)
    then show "renderChunk (chunk_images c)
                 (chunkDuration (duration opts) (length (images opts)) c) tr =
               Inr (projr (renderChunk (chunk_images c)
                 (chunkDuration (duration opts) (length (images opts)) c) tr))"
      by (rule renderChunk_ok)
  qed
  have d0: "durs ! 0 = sum_list (take 1 durs) - of_nat (1 - 1) * transitionDuration tr"
    using k ld by (cases durs) simp_all
  have loop: "xfadeLoop cs durs (transitionDuration tr) 1 (durs ! 0) [] =
        (sum_list durs - of_nat (length durs - 1) * transitionDuration tr,
         [] @ map (\<lambda>m. sum_list (take m durs) - of_nat (m - 1) * transitionDuration tr -
                        durs ! (m - 1) / of_nat (length (chunk_images (cs ! (m - 1)))) -
                        transitionDuration tr)
                  [1..<length durs])"
    using k ld d0 by (intro xfadeLoop_closed) simp_all
  have ov: "durs ! (m - 1) / of_nat (length (chunk_images (cs ! (m - 1)))) =
            duration opts / of_nat (length (images opts))" if "m \<in> set [1..<length durs]" for m
  proof -
    have m: "m - 1 < length cs" using that ld by auto
    then have "cs ! (m - 1) \<in> set (calculateChunks (images opts))"
      unfolding cs_def by (rule nth_mem)
    then show ?thesis
      using m overlap_duration [OF _ ne, of "cs ! (m - 1)" "duration opts"]
      by (simp add: durs_def cs_def)
  qed
  have offs: "map (\<lambda>m. sum_list (take m durs) - of_nat (m - 1) * transitionDuration tr -
                        durs ! (m - 1) / of_nat (length (chunk_images (cs ! (m - 1)))) -
                        transitionDuration tr) [1..<length durs] =
              map (\<lambda>m. sum_list (take m durs) - of_nat (m - 1) * transitionDuration tr -
                        duration opts / of_nat (length (images opts)) - transitionDuration tr)
                  [1..<length cs]"
    unfolding ld [symmetric] by (rule map_cong [OF refl]) (simp only: ov)
  have loop': "xfadeLoop cs durs (transitionDuration tr) (Suc 0) (durs ! 0) [] =
        (sum_list durs - of_nat (length cs - 1) * transitionDuration tr,
         map (\<lambda>m. sum_list (take m durs) - of_nat (m - 1) * transitionDuration tr -
                        duration opts / of_nat (length (images opts)) - transitionDuration tr)
                  [1..<length cs])"
    using loop unfolding offs by (simp only: ld One_nat_def append_Nil)
  have conc: "concatenateChunksWithTransitions cs durs (Some tr) =
        Inr (XfadeChain
             (map (\<lambda>m. sum_list (take m durs) - of_nat (m - 1) * transitionDuration tr -
                        duration opts / of_nat (length (images opts)) - transitionDuration tr)
                  [1..<length cs])
             (transitionDuration tr)
             (sum_list durs - of_nat (length cs - 1) * transitionDuration tr))"
  proof -
    have "length durs \<noteq> 1" and "durs \<noteq> []" and "cs \<noteq> []" using k ld by auto
    then have "concatenateChunksWithTransitions cs durs (Some tr) =
        (case xfadeLoop cs durs (transitionDuration tr) (Suc 0) (durs ! 0) [] of
           (outputDuration, offsets) \<Rightarrow>
             Inr (XfadeChain offsets (transitionDuration tr) outputDuration))"
      by (simp add: concatenateChunksWithTransitions_def Let_def)
    also have "\<dots> = Inr (XfadeChain
             (map (\<lambda>m. sum_list (take m durs) - of_nat (m - 1) * transitionDuration tr -
                        duration opts / of_nat (length (images opts)) - transitionDuration tr)
                  [1..<length cs])
             (transitionDuration tr)
             (sum_list durs - of_nat (length cs - 1) * transitionDuration tr))"
      by (simp only: loop' prod.case)
    finally show ?thesis .
  qed
  have durs_cs: "map (chunkDuration (duration opts) (length (images opts))) cs = durs"
    by (simp add: durs_def cs_def)
  show ?thesis
    unfolding buildCommandChunked_def Let_def
    unfolding tr_def [symmetric] cs_def [symmetric] durs_cs
    by (simp only: seq conc sum.case)
qed

lemma buildCommand_chunked:
  assumes "6 < length (images opts)"
  shows "buildCommand opts = Inr (Chunked (projr (buildCommandChunked opts)))"
    and "buildCommandChunked opts = Inr (projr (buildCommandChunked opts))"
proof -
  have "3 < length (images opts)" using assms by simp
  from buildCommandChunked_plan [OF this]
  show b: "buildCommandChunked opts = Inr (projr (buildCommandChunked opts))" by simp
  show "buildCommand opts = Inr (Chunked (projr (buildCommandChunked opts)))"
  proof (cases "buildCommandChunked opts")
    case (Inl e)
    with b show ?thesis by simp
  next
    case (Inr p)
    then show ?thesis using assms by (simp add: buildCommand_def BATCH_THRESHOLD_def)
  qed
qed

lemma windows_concat:
  "concat (map (\<lambda>j. take 3 (drop (3 * j) xs)) [0..<k]) = take (3 * k) xs"
proof (induction k)
  case 0
  show ?case by simp
next
  case (Suc k)
  have "3 * Suc k = 3 * k + 3" by simp
  then have "take (3 * Suc k) xs = take (3 * k) xs @ take 3 (drop (3 * k) xs)"
    by (simp only: take_add)
  then show ?case using Suc.IH by simp
qed

lemma full_window_last:
  assumes "m + 3 \<le> length xs"
  shows "last (ys @ take 3 (drop m xs)) = xs ! (m + 2)"
proof -
  have l: "length (take 3 (drop m xs)) = 3" using assms by simp
  then have ne: "take 3 (drop m xs) \<noteq> []" by auto
  have "last (take 3 (drop m xs)) = take 3 (drop m xs) ! 2"
    using l by (simp add: last_conv_nth ne)
  also have "\<dots> = xs ! (m + 2)" using assms by simp
  finally show ?thesis using ne by simp
qed

text \<open>
  Claim C3. A list of at most six images is rendered as one filter graph, never in batches.
  A longer list is rendered in batches: batch \<open>j\<close> starts at image \<open>3 * j\<close> and holds
  the next three images, the last batch the one to three that remain; every batch but the
  first carries the overlap flag and begins with the last image of the batch before it;
  the new images of the batches, in order, are the list itself. Ten images give exactly
  four batches, all but the first with an overlap image.
\<close>

theorem batching_rule:
  "(length (images opts) \<le> 6 \<longrightarrow>
      buildCommand opts =
        (case buildFilterComplex (singlePassOptions opts) of
           Inl e \<Rightarrow> Inl e | Inr p \<Rightarrow> Inr (SinglePass p)) \<and>
      (images opts \<noteq> [] \<longrightarrow> (\<exists>p. buildCommand opts = Inr (SinglePass p)))) \<and>
   (6 < length (images opts) \<longrightarrow>
      (\<exists>plan. buildCommand opts = Inr (Chunked plan) \<and>
              chunks plan = calculateChunks (images opts))) \<and>
   length (calculateChunks imgs) = (length imgs + 2) div 3 \<and>
   (\<forall>j < length (calculateChunks imgs).
      startIdx (calculateChunks imgs ! j) = 3 * j \<and>
      hasOverlap (calculateChunks imgs ! j) = (0 < j) \<and>
      chunk_images (calculateChunks imgs ! j) =
        (if j = 0 then [] else [imgs ! (3 * j - 1)]) @ take 3 (drop (3 * j) imgs) \<and>
      take 3 (drop (3 * j) imgs) \<noteq> [] \<and>
      (j + 1 < length (calculateChunks imgs) \<longrightarrow> length (take 3 (drop (3 * j) imgs)) = 3) \<and>
      (0 < j \<longrightarrow>
         hd (chunk_images (calculateChunks imgs ! j)) =
         last (chunk_images (calculateChunks imgs ! (j - 1))))) \<and>
   concat (map (\<lambda>j. take 3 (drop (3 * j) imgs)) [0..<length (calculateChunks imgs)]) = imgs \<and>
   (length imgs = 10 \<longrightarrow>
      length (calculateChunks imgs) = 4 \<and>
      map hasOverlap (calculateChunks imgs) = [False, True, True, True])"
proof (intro conjI impI allI)
  assume "length (images opts) \<le> 6"
  then show "buildCommand opts =
        (case buildFilterComplex (singlePassOptions opts) of
           Inl e \<Rightarrow> Inl e | Inr p \<Rightarrow> Inr (SinglePass p))"
    by (simp add: buildCommand_def BATCH_THRESHOLD_def)
next
  assume le: "length (images opts) \<le> 6" and ne: "images opts \<noteq> []"
  have "fc_images (singlePassOptions opts) \<noteq> []"
    using ne by (simp add: singlePassOptions_def Let_def)
  from buildFilterComplex_ok [OF this]
  obtain p where "buildFilterComplex (singlePassOptions opts) = Inr p" by blast
  then show "\<exists>p. buildCommand opts = Inr (SinglePass p)"
    using le by (simp add: buildCommand_def BATCH_THRESHOLD_def)
next
  assume gt: "6 < length (images opts)"
  then have "3 < length (images opts)" by simp
  from buildCommandChunked_plan [OF this]
  have "chunks (projr (buildCommandChunked opts)) = calculateChunks (images opts)" by simp
  then show "\<exists>plan. buildCommand opts = Inr (Chunked plan) \<and>
              chunks plan = calculateChunks (images opts)"
    using buildCommand_chunked(1) [OF gt] by blast
next
  show "length (calculateChunks imgs) = (length imgs + 2) div 3"
    by (rule calculateChunks_length)
next
  fix j assume "j < length (calculateChunks imgs)"
  then have j: "j < (length imgs + 2) div 3" by (simp add: calculateChunks_length)
  then have c: "calculateChunks imgs ! j = chunk_at imgs j"
    by (simp add: calculateChunks_eq)
  have lt: "3 * j < length imgs" using j by linarith
  show "startIdx (calculateChunks imgs ! j) = 3 * j" by (simp add: c chunk_at_def)
  show "hasOverlap (calculateChunks imgs ! j) = (0 < j)" by (simp add: c chunk_at_def)
  show "chunk_images (calculateChunks imgs ! j) =
        (if j = 0 then [] else [imgs ! (3 * j - 1)]) @ take 3 (drop (3 * j) imgs)"
    by (simp add: c chunk_at_def)
  show "take 3 (drop (3 * j) imgs) \<noteq> []" using lt by simp
  {
    assume "j + 1 < length (calculateChunks imgs)"
    then have "3 * (j + 1) < length imgs" unfolding calculateChunks_length by presburger
    then show "length (take 3 (drop (3 * j) imgs)) = 3" by simp
  }
  {
    assume pos: "0 < j"
    then have p: "calculateChunks imgs ! (j - 1) = chunk_at imgs (j - 1)"
      using j by (simp add: calculateChunks_eq)
    have full: "3 * (j - 1) + 3 \<le> length imgs" using pos lt by simp
    have "last (chunk_images (chunk_at imgs (j - 1))) = imgs ! (3 * (j - 1) + 2)"
      unfolding chunk_at_def using full by (simp only: chunk.simps full_window_last)
    also have "3 * (j - 1) + 2 = 3 * j - 1" using pos by simp
    finally have l: "last (chunk_images (calculateChunks imgs ! (j - 1))) = imgs ! (3 * j - 1)"
      by (simp only: p)
    have h: "hd (chunk_images (calculateChunks imgs ! j)) = imgs ! (3 * j - 1)"
      using pos by (simp add: c chunk_at_def)
    show "hd (chunk_images (calculateChunks imgs ! j)) =
          last (chunk_images (calculateChunks imgs ! (j - 1)))"
      by (simp only: l h)
  }
next
  have "3 * ((length imgs + 2) div 3) \<ge> length imgs" by linarith
  then show "concat (map (\<lambda>j. take 3 (drop (3 * j) imgs)) [0..<length (calculateChunks imgs)]) = imgs"
    by (simp add: windows_concat calculateChunks_length)
next
  assume "length imgs = 10"
  then show "length (calculateChunks imgs) = 4" by (simp add: calculateChunks_length)
next
  assume n: "length imgs = 10"
  have "[0..<4] = [0, 1, 2, 3::nat]" by (simp add: upt_rec)
  then show "map hasOverlap (calculateChunks imgs) = [False, True, True, True]"
    by (simp add: calculateChunks_eq n chunk_at_def)
qed


theorem batching_rule_witness:
  "length (images
      \<lparr>images = [''01.jpg'', ''02.jpg'', ''03.jpg''],
       voiceOver = None, backgroundMusic = None, logo = None, reviewImage = None,
       duration = 30, transition = None\<rparr>) \<le> 6 \<and>
   (\<exists>p. buildCommand
      \<lparr>images = [''01.jpg'', ''02.jpg'', ''03.jpg''],
       voiceOver = None, backgroundMusic = None, logo = None, reviewImage = None,
       duration = 30, transition = None\<rparr> = Inr (SinglePass p)) \<and>
   6 < length (images
      \<lparr>images = [''01.jpg'', ''02.jpg'', ''03.jpg'', ''04.jpg'', ''05.jpg'', ''06.jpg'', ''07.jpg'', ''08.jpg'', ''09.jpg'', ''10.jpg''],
       voiceOver = None, backgroundMusic = None, logo = None, reviewImage = None,
       duration = 30, transition = None\<rparr>) \<and>
   (\<exists>plan. buildCommand
      \<lparr>images = [''01.jpg'', ''02.jpg'', ''03.jpg'', ''04.jpg'', ''05.jpg'', ''06.jpg'', ''07.jpg'', ''08.jpg'', ''09.jpg'', ''10.jpg''],
       voiceOver = None, backgroundMusic = None, logo = None, reviewImage = None,
       duration = 30, transition = None\<rparr> = Inr (Chunked plan) \<and>
      chunks plan = calculateChunks
        [''01.jpg'', ''02.jpg'', ''03.jpg'', ''04.jpg'', ''05.jpg'', ''06.jpg'', ''07.jpg'', ''08.jpg'', ''09.jpg'', ''10.jpg'']) \<and>
   length (calculateChunks
        [''01.jpg'', ''02.jpg'', ''03.jpg'', ''04.jpg'', ''05.jpg'', ''06.jpg'', ''07.jpg'', ''08.jpg'', ''09.jpg'', ''10.jpg'']) = 4 \<and>
   map hasOverlap (calculateChunks
        [''01.jpg'', ''02.jpg'', ''03.jpg'', ''04.jpg'', ''05.jpg'', ''06.jpg'', ''07.jpg'', ''08.jpg'', ''09.jpg'', ''10.jpg'']) = [False, True, True, True] \<and>
   chunk_images (calculateChunks
        [''01.jpg'', ''02.jpg'', ''03.jpg'', ''04.jpg'', ''05.jpg'', ''06.jpg'', ''07.jpg'', ''08.jpg'', ''09.jpg'', ''10.jpg''] ! 1) = [''03.jpg'', ''04.jpg'', ''05.jpg'', ''06.jpg''] \<and>
   hd (chunk_images (calculateChunks
        [''01.jpg'', ''02.jpg'', ''03.jpg'', ''04.jpg'', ''05.jpg'', ''06.jpg'', ''07.jpg'', ''08.jpg'', ''09.jpg'', ''10.jpg''] ! 1)) =
   last (chunk_images (calculateChunks
        [''01.jpg'', ''02.jpg'', ''03.jpg'', ''04.jpg'', ''05.jpg'', ''06.jpg'', ''07.jpg'', ''08.jpg'', ''09.jpg'', ''10.jpg''] ! (1 - 1)))"
proof -
  let ?imgs = "[''01.jpg'', ''02.jpg'', ''03.jpg'', ''04.jpg'', ''05.jpg'', ''06.jpg'', ''07.jpg'', ''08.jpg'', ''09.jpg'', ''10.jpg'']"
  let ?ten = "\<lparr>images = [''01.jpg'', ''02.jpg'', ''03.jpg'', ''04.jpg'', ''05.jpg'', ''06.jpg'', ''07.jpg'', ''08.jpg'', ''09.jpg'', ''10.jpg''],
       voiceOver = None, backgroundMusic = None, logo = None, reviewImage = None,
       duration = 30, transition = None\<rparr>"
  let ?three = "\<lparr>images = [''01.jpg'', ''02.jpg'', ''03.jpg''],
       voiceOver = None, backgroundMusic = None, logo = None, reviewImage = None,
       duration = 30, transition = None\<rparr>"
  note r3 = batching_rule [of ?three ?imgs]
  note r10 = batching_rule [of ?ten ?imgs]
  note A = r3 [THEN conjunct1]
  note B = r10 [THEN conjunct2, THEN conjunct1]
  note D = r10 [THEN conjunct2, THEN conjunct2, THEN conjunct2, THEN conjunct1]
  note F = r10 [THEN conjunct2, THEN conjunct2, THEN conjunct2, THEN conjunct2, THEN conjunct2]
  have n: "length ?imgs = 10" by simp
  have le: "length (images ?three) \<le> 6" by simp
  have ne: "images ?three \<noteq> []" by simp
  have gt: "6 < length (images ?ten)" by simp
  have single: "\<exists>p. buildCommand ?three = Inr (SinglePass p)"
    by (rule A [THEN mp, OF le, THEN conjunct2, THEN mp, OF ne])
  have chunked: "\<exists>plan. buildCommand ?ten = Inr (Chunked plan) \<and>
                   chunks plan = calculateChunks (images ?ten)"
    by (rule B [THEN mp, OF gt])
  have four: "length (calculateChunks ?imgs) = 4"
    by (rule F [THEN mp, OF n, THEN conjunct1])
  have flags: "map hasOverlap (calculateChunks ?imgs) = [False, True, True, True]"
    by (rule F [THEN mp, OF n, THEN conjunct2])
  have one: "1 < length (calculateChunks ?imgs)" by (simp add: four)
  note D1 = D [THEN spec, of 1, THEN mp, OF one]
  have per: "chunk_images (calculateChunks ?imgs ! 1) =
               (if (1::nat) = 0 then [] else [?imgs ! (3 * 1 - 1)]) @ take 3 (drop (3 * 1) ?imgs)"
    by (rule D1 [THEN conjunct2, THEN conjunct2, THEN conjunct1])
  have seam: "hd (chunk_images (calculateChunks ?imgs ! 1)) =
               last (chunk_images (calculateChunks ?imgs ! (1 - 1)))"
    by (rule D1 [THEN conjunct2, THEN conjunct2, THEN conjunct2, THEN conjunct2, THEN conjunct2,
                 THEN mp, OF zero_less_one])
  have imgs1: "chunk_images (calculateChunks ?imgs ! 1) = [''03.jpg'', ''04.jpg'', ''05.jpg'', ''06.jpg'']"
    by (subst per) simp
  have chunked': "\<exists>plan. buildCommand ?ten = Inr (Chunked plan) \<and>
                   chunks plan = calculateChunks ?imgs"
    using chunked by (simp only: render_options.simps)
  show ?thesis
    by (intro conjI) (rule le single gt chunked' four flags imgs1 seam)+
qed

subsection \<open>The duration of a batched render\<close>

text \<open>
  Claim C2, as the code has it. For a batched render (more than six images) of target
  duration \<open>D\<close> over \<open>N\<close> images, with \<open>T\<close> the duration \<open>transition.duration || 0.5\<close>:
  each batch lasts \<open>D\<close> times its number of images (the overlap image included) over
  \<open>N\<close>; the output duration the stitching tracks grows by the next batch's duration
  minus \<open>T\<close> at each join, so that the offset of join \<open>i\<close> is the sum of the first
  \<open>i\<close> batch durations minus \<open>(i - 1) * T\<close>, minus the overlap image's duration
  \<open>D / N\<close>, minus \<open>T\<close>; after the last of the \<open>k\<close> batches the tracked duration is the
  sum of the batch durations minus \<open>(k - 1) * T\<close>, which is \<open>D + (k - 1) * (D / N - T)\<close>
  and not \<open>D\<close> in general. What equals \<open>D\<close> exactly is the sum of the batch durations
  minus one overlap image's duration \<open>D / N\<close> per seam. The last pass cuts the output
  at \<open>D\<close> (\<open>-t duration\<close>).
\<close>

theorem chunked_tracked_duration:
  assumes "6 < length (images opts)"
  defines "T \<equiv> transitionDuration (transitionOrDefault (transition opts))"
    and "D \<equiv> duration opts"
    and "N \<equiv> rat_of_nat (length (images opts))"
  shows "\<exists>plan offsets tracked.
     buildCommand opts = Inr (Chunked plan) \<and>
     chunks plan = calculateChunks (images opts) \<and>
     chunkDurations plan = map (\<lambda>c. D * of_nat (length (chunk_images c)) / N) (chunks plan) \<and>
     concatenation plan = XfadeChain offsets T tracked \<and>
     offsets = map (\<lambda>i. (sum_list (take i (chunkDurations plan)) - of_nat (i - 1) * T) - D / N - T)
                   [1..<length (chunks plan)] \<and>
     tracked = sum_list (chunkDurations plan) - (of_nat (length (chunks plan)) - 1) * T \<and>
     tracked = D + (of_nat (length (chunks plan)) - 1) * (D / N - T) \<and>
     sum_list (chunkDurations plan) - (of_nat (length (chunks plan)) - 1) * (D / N) = D \<and>
     final_t plan = D"
proof -
  let ?cs = "calculateChunks (images opts)"
  let ?durs = "map (chunkDuration (duration opts) (length (images opts))) ?cs"
  have n3: "3 < length (images opts)" and ne: "images opts \<noteq> []" using assms(1) by auto
  have k: "1 \<le> length ?cs" using ne unfolding calculateChunks_length by (cases "images opts") simp_all
  note p = buildCommandChunked_plan [OF n3]
  have bc: "buildCommand opts = Inr (Chunked (projr (buildCommandChunked opts)))"
    by (rule buildCommand_chunked [OF assms(1)])
  have sum: "sum_list ?durs = D + (of_nat (length ?cs) - 1) * (D / N)"
    unfolding D_def N_def by (rule chunk_durations_sum [OF ne])
  have km: "rat_of_nat (length ?cs - Suc 0) = of_nat (length ?cs) - 1"
    using k by (simp add: of_nat_diff)
  show ?thesis
  proof (intro exI conjI)
    show "buildCommand opts = Inr (Chunked (projr (buildCommandChunked opts)))" by (rule bc)
    show "chunks (projr (buildCommandChunked opts)) = ?cs" by (simp add: p)
    show "chunkDurations (projr (buildCommandChunked opts)) =
            map (\<lambda>c. D * of_nat (length (chunk_images c)) / N)
                (chunks (projr (buildCommandChunked opts)))"
      by (simp add: p chunkDuration_def D_def N_def)
    show "concatenation (projr (buildCommandChunked opts)) =
            XfadeChain
              (map (\<lambda>i. (sum_list (take i ?durs) - of_nat (i - 1) * T) - D / N - T) [1..<length ?cs])
              T (sum_list ?durs - (of_nat (length ?cs) - 1) * T)"
      by (simp add: p T_def D_def N_def km)
    show "map (\<lambda>i. (sum_list (take i ?durs) - of_nat (i - 1) * T) - D / N - T) [1..<length ?cs] =
          map (\<lambda>i. (sum_list (take i (chunkDurations (projr (buildCommandChunked opts)))) -
                     of_nat (i - 1) * T) - D / N - T)
              [1..<length (chunks (projr (buildCommandChunked opts)))]"
      by (simp add: p)
    show "sum_list ?durs - (of_nat (length ?cs) - 1) * T =
          sum_list (chunkDurations (projr (buildCommandChunked opts))) -
          (of_nat (length (chunks (projr (buildCommandChunked opts)))) - 1) * T"
      by (simp add: p)
    show "sum_list ?durs - (of_nat (length ?cs) - 1) * T =
          D + (of_nat (length (chunks (projr (buildCommandChunked opts)))) - 1) * (D / N - T)"
      by (simp add: p sum algebra_simps)
    show "sum_list (chunkDurations (projr (buildCommandChunked opts))) -
          (of_nat (length (chunks (projr (buildCommandChunked opts)))) - 1) * (D / N) = D"
      by (simp add: p sum)
    show "final_t (projr (buildCommandChunked opts)) = D" by (simp add: p D_def)
  qed
qed


text \<open>
  The claim as stated fails for ten images, a target of 30 seconds and the default fade of
  half a second: the batches last 9, 12, 12 and 6 seconds, the tracked output duration
  ends at 37.5 seconds, and neither the sum minus the three crossfades (37.5) nor the sum
  minus the three overlap images and crossfades (28.5) is 30.
\<close>

theorem chunked_tracked_duration_counterexample:
  "buildCommand
     \<lparr>images = [''01.jpg'', ''02.jpg'', ''03.jpg'', ''04.jpg'', ''05.jpg'', ''06.jpg'', ''07.jpg'', ''08.jpg'', ''09.jpg'', ''10.jpg''],
       voiceOver = None, backgroundMusic = None, logo = None, reviewImage = None,
       duration = 30, transition = None\<rparr> =
   Inr (Chunked (projr (buildCommandChunked
     \<lparr>images = [''01.jpg'', ''02.jpg'', ''03.jpg'', ''04.jpg'', ''05.jpg'', ''06.jpg'', ''07.jpg'', ''08.jpg'', ''09.jpg'', ''10.jpg''],
       voiceOver = None, backgroundMusic = None, logo = None, reviewImage = None,
       duration = 30, transition = None\<rparr>))) \<and>
   chunkDurations (projr (buildCommandChunked
     \<lparr>images = [''01.jpg'', ''02.jpg'', ''03.jpg'', ''04.jpg'', ''05.jpg'', ''06.jpg'', ''07.jpg'', ''08.jpg'', ''09.jpg'', ''10.jpg''],
       voiceOver = None, backgroundMusic = None, logo = None, reviewImage = None,
       duration = 30, transition = None\<rparr>)) = [9, 12, 12, 6] \<and>
   concatenation (projr (buildCommandChunked
     \<lparr>images = [''01.jpg'', ''02.jpg'', ''03.jpg'', ''04.jpg'', ''05.jpg'', ''06.jpg'', ''07.jpg'', ''08.jpg'', ''09.jpg'', ''10.jpg''],
       voiceOver = None, backgroundMusic = None, logo = None, reviewImage = None,
       duration = 30, transition = None\<rparr>)) =
     XfadeChain [11 / 2, 17, 57 / 2] (1 / 2) (75 / 2) \<and>
   (9 + 12 + 12 + 6) - 3 * (1 / 2) \<noteq> (30::rat) \<and>
   (9 + 12 + 12 + 6) - 3 * (3 + 1 / 2) \<noteq> (30::rat) \<and>
   (75 / 2 \<noteq> (30::rat))"
  by code_simp

theorem chunked_tracked_duration_witness:
  "6 < length (images
      \<lparr>images = [''01.jpg'', ''02.jpg'', ''03.jpg'', ''04.jpg'', ''05.jpg'', ''06.jpg'', ''07.jpg'', ''08.jpg'', ''09.jpg'', ''10.jpg''],
       voiceOver = None, backgroundMusic = None, logo = None, reviewImage = None,
       duration = 30, transition = None\<rparr>) \<and>
   (\<exists>plan offsets tracked.
      buildCommand
      \<lparr>images = [''01.jpg'', ''02.jpg'', ''03.jpg'', ''04.jpg'', ''05.jpg'', ''06.jpg'', ''07.jpg'', ''08.jpg'', ''09.jpg'', ''10.jpg''],
       voiceOver = None, backgroundMusic = None, logo = None, reviewImage = None,
       duration = 30, transition = None\<rparr> = Inr (Chunked plan) \<and>
      length (chunks plan) = 4 \<and>
      concatenation plan = XfadeChain offsets (1 / 2) tracked \<and>
      tracked = 30 + 3 * (30 / 10 - 1 / 2) \<and>
      sum_list (chunkDurations plan) - 3 * (30 / 10) = 30 \<and>
      final_t plan = 30)"
proof -
  let ?ten = "\<lparr>images = [''01.jpg'', ''02.jpg'', ''03.jpg'', ''04.jpg'', ''05.jpg'', ''06.jpg'', ''07.jpg'', ''08.jpg'', ''09.jpg'', ''10.jpg''],
       voiceOver = None, backgroundMusic = None, logo = None, reviewImage = None,
       duration = 30, transition = None\<rparr>"
  have h: "6 < length (images ?ten)" by simp
  obtain plan offsets tracked where
      b: "buildCommand ?ten = Inr (Chunked plan)"
    and c: "chunks plan = calculateChunks (images ?ten)"
    and x: "concatenation plan =
              XfadeChain offsets (transitionDuration (transitionOrDefault (transition ?ten))) tracked"
    and t: "tracked = duration ?ten + (of_nat (length (chunks plan)) - 1) *
              (duration ?ten / rat_of_nat (length (images ?ten)) -
               transitionDuration (transitionOrDefault (transition ?ten)))"
    and u: "sum_list (chunkDurations plan) - (of_nat (length (chunks plan)) - 1) *
              (duration ?ten / rat_of_nat (length (images ?ten))) = duration ?ten"
    and f: "final_t plan = duration ?ten"
    using chunked_tracked_duration [OF h] by blast
  have k: "length (chunks plan) = 4" unfolding c by (simp add: calculateChunks_length)
  have td: "transitionDuration (transitionOrDefault (transition ?ten)) = 1 / 2"
    by (simp add: transitionDuration_def transitionOrDefault_def)
  show ?thesis
  proof (intro conjI exI)
    show "6 < length (images ?ten)" by (rule h)
    show "buildCommand ?ten = Inr (Chunked plan)" by (rule b)
    show "length (chunks plan) = 4" by (rule k)
    show "concatenation plan = XfadeChain offsets (1 / 2) tracked" using x td by simp
    show "tracked = 30 + 3 * (30 / 10 - 1 / 2)" using t k td by simp
    show "sum_list (chunkDurations plan) - 3 * (30 / 10) = 30" using u k by simp
    show "final_t plan = 30" using f by simp
  qed
qed

subsection \<open>The transition of a render\<close>

lemma adjusted_duration:
  "transitionDuration (adjustedTransition n tr) = (if n > 8 then 25 / 100 else if n > 5 then 4 / 10 else 6 / 10)"
  and adjusted_type: "ttype (adjustedTransition n tr) = ttype tr"
  by (simp_all add: adjustedTransition_def transitionDuration_def)

lemma buildFilterComplex_xfades:
  assumes "buildFilterComplex fo = Inr p" and "x \<in> set (xfades p)"
  shows "xf_duration x = transitionDuration (transitionOrDefault (fc_transition fo)) \<and>
         xf_transition x = transitionType (transitionOrDefault (fc_transition fo))"
  using assms by (auto simp: buildFilterComplex_def Let_def split: if_splits)

text \<open>
  Claim C10. In a single pass (at most six images) the transition handed to the filter
  graph keeps the caller's type but has the duration \<open>0.6\<close> for up to five images and
  \<open>0.4\<close> for six, whatever duration the caller asked for, and every crossfade of the graph
  lasts that long. A batched render (more than six images) hands the caller's transition
  (or the default fade of half a second when there is none) to every batch and to the
  stitching: every crossfade inside a batch has the caller's type and the duration
  \<open>transition.duration || 0.5\<close>; the stitching places the joins between batches with that
  same duration (the crossfade of a join is always a \<open>fade\<close>, whatever the caller's type).
\<close>

theorem transition_override:
  "(length (images opts) \<le> 6 \<longrightarrow>
      buildCommand opts =
        (case buildFilterComplex (singlePassOptions opts) of
           Inl e \<Rightarrow> Inl e | Inr p \<Rightarrow> Inr (SinglePass p)) \<and>
      transitionDuration (transitionOrDefault (fc_transition (singlePassOptions opts))) =
        (if length (images opts) \<le> 5 then 6 / 10 else 4 / 10) \<and>
      ttype (transitionOrDefault (fc_transition (singlePassOptions opts))) =
        ttype (transitionOrDefault (transition opts)) \<and>
      (\<forall>p. buildCommand opts = Inr (SinglePass p) \<longrightarrow>
         (\<forall>x \<in> set (xfades p).
            xf_duration x = (if length (images opts) \<le> 5 then 6 / 10 else 4 / 10)))) \<and>
   (6 < length (images opts) \<longrightarrow>
      buildCommand opts = Inr (Chunked (projr (buildCommandChunked opts))) \<and>
      chunkPlans (projr (buildCommandChunked opts)) =
        map (\<lambda>c. projr (renderChunk (chunk_images c)
                    (chunkDuration (duration opts) (length (images opts)) c)
                    (transitionOrDefault (transition opts))))
            (calculateChunks (images opts)) \<and>
      (\<forall>p \<in> set (chunkPlans (projr (buildCommandChunked opts))). \<forall>x \<in> set (xfades p).
         xf_duration x = transitionDuration (transitionOrDefault (transition opts)) \<and>
         xf_transition x = transitionType (transitionOrDefault (transition opts))) \<and>
      (\<exists>offsets tracked.
         concatenation (projr (buildCommandChunked opts)) =
           XfadeChain offsets (transitionDuration (transitionOrDefault (transition opts))) tracked))"
proof (intro conjI impI allI ballI)
  assume "length (images opts) \<le> 6"
  then show "buildCommand opts =
        (case buildFilterComplex (singlePassOptions opts) of
           Inl e \<Rightarrow> Inl e | Inr p \<Rightarrow> Inr (SinglePass p))"
    by (simp add: buildCommand_def BATCH_THRESHOLD_def)
next
  assume "length (images opts) \<le> 6"
  then show "transitionDuration (transitionOrDefault (fc_transition (singlePassOptions opts))) =
        (if length (images opts) \<le> 5 then 6 / 10 else 4 / 10)"
    by (simp add: singlePassOptions_def Let_def transitionOrDefault_def adjusted_duration)
next
  show "ttype (transitionOrDefault (fc_transition (singlePassOptions opts))) =
        ttype (transitionOrDefault (transition opts))"
    by (simp add: singlePassOptions_def Let_def adjusted_type transitionOrDefault_def)
next
  fix p x
  assume le: "length (images opts) \<le> 6" and b: "buildCommand opts = Inr (SinglePass p)"
    and x: "x \<in> set (xfades p)"
  have "buildFilterComplex (singlePassOptions opts) = Inr p"
    using le b by (simp add: buildCommand_def BATCH_THRESHOLD_def split: sum.splits)
  from buildFilterComplex_xfades [OF this x]
  have "xf_duration x = transitionDuration (transitionOrDefault (fc_transition (singlePassOptions opts)))"
    by simp
  then show "xf_duration x = (if length (images opts) \<le> 5 then 6 / 10 else 4 / 10)"
    using le by (simp add: singlePassOptions_def Let_def transitionOrDefault_def adjusted_duration)
next
  assume "6 < length (images opts)"
  then show "buildCommand opts = Inr (Chunked (projr (buildCommandChunked opts)))"
    by (rule buildCommand_chunked(1))
next
  assume "6 < length (images opts)"
  then have "3 < length (images opts)" by simp
  from buildCommandChunked_plan [OF this]
  show "chunkPlans (projr (buildCommandChunked opts)) =
        map (\<lambda>c. projr (renderChunk (chunk_images c)
                    (chunkDuration (duration opts) (length (images opts)) c)
                    (transitionOrDefault (transition opts))))
            (calculateChunks (images opts))"
    by simp
next
  fix p x
  assume gt: "6 < length (images opts)"
    and p: "p \<in> set (chunkPlans (projr (buildCommandChunked opts)))"
    and x: "x \<in> set (xfades p)"
  have n3: "3 < length (images opts)" using gt by simp
  have "chunkPlans (projr (buildCommandChunked opts)) =
        map (\<lambda>c. projr (renderChunk (chunk_images c)
                    (chunkDuration (duration opts) (length (images opts)) c)
                    (transitionOrDefault (transition opts))))
            (calculateChunks (images opts))"
    using buildCommandChunked_plan [OF n3] by simp
  then obtain c where c: "c \<in> set (calculateChunks (images opts))"
    and pc: "p = projr (renderChunk (chunk_images c)
                    (chunkDuration (duration opts) (length (images opts)) c)
                    (transitionOrDefault (transition opts)))"
    using p by auto
  have "renderChunk (chunk_images c)
          (chunkDuration (duration opts) (length (images opts)) c)
          (transitionOrDefault (transition opts)) = Inr p"
    unfolding pc by (rule renderChunk_ok [OF chunk_nonempty [OF c]])
  from buildFilterComplex_xfades [OF this [unfolded renderChunk_def] x]
  have both: "xf_duration x = transitionDuration (transitionOrDefault (transition opts)) \<and>
        xf_transition x = transitionType (transitionOrDefault (transition opts))"
    by (simp add: transitionOrDefault_def)
  show "xf_duration x = transitionDuration (transitionOrDefault (transition opts))"
    using both by (rule conjunct1)
  show "xf_transition x = transitionType (transitionOrDefault (transition opts))"
    using both by (rule conjunct2)
next
  assume "6 < length (images opts)"
  then have "3 < length (images opts)" by simp
  from buildCommandChunked_plan [OF this]
  show "\<exists>offsets tracked.
         concatenation (projr (buildCommandChunked opts)) =
           XfadeChain offsets (transitionDuration (transitionOrDefault (transition opts))) tracked"
    by simp
qed


theorem transition_override_witness:
  "length (images
      \<lparr>images = [''01.jpg'', ''02.jpg'', ''03.jpg''],
       voiceOver = None, backgroundMusic = None, logo = None, reviewImage = None,
       duration = 30, transition = Some \<lparr>ttype = Some ''fade'', tduration = Some 2\<rparr>\<rparr>) \<le> 6 \<and>
   transitionDuration (transitionOrDefault (fc_transition (singlePassOptions
      \<lparr>images = [''01.jpg'', ''02.jpg'', ''03.jpg''],
       voiceOver = None, backgroundMusic = None, logo = None, reviewImage = None,
       duration = 30, transition = Some \<lparr>ttype = Some ''fade'', tduration = Some 2\<rparr>\<rparr>))) = 6 / 10 \<and>
   6 < length (images
      \<lparr>images = [''01.jpg'', ''02.jpg'', ''03.jpg'', ''04.jpg'', ''05.jpg'', ''06.jpg'', ''07.jpg'', ''08.jpg'', ''09.jpg'', ''10.jpg''],
       voiceOver = None, backgroundMusic = None, logo = None, reviewImage = None,
       duration = 30, transition = Some \<lparr>ttype = Some ''fade'', tduration = Some 2\<rparr>\<rparr>) \<and>
   (\<exists>offsets tracked.
      concatenation (projr (buildCommandChunked
      \<lparr>images = [''01.jpg'', ''02.jpg'', ''03.jpg'', ''04.jpg'', ''05.jpg'', ''06.jpg'', ''07.jpg'', ''08.jpg'', ''09.jpg'', ''10.jpg''],
       voiceOver = None, backgroundMusic = None, logo = None, reviewImage = None,
       duration = 30, transition = Some \<lparr>ttype = Some ''fade'', tduration = Some 2\<rparr>\<rparr>)) = XfadeChain offsets 2 tracked)"
proof -
  let ?ten = "\<lparr>images = [''01.jpg'', ''02.jpg'', ''03.jpg'', ''04.jpg'', ''05.jpg'', ''06.jpg'', ''07.jpg'', ''08.jpg'', ''09.jpg'', ''10.jpg''],
       voiceOver = None, backgroundMusic = None, logo = None, reviewImage = None,
       duration = 30, transition = Some \<lparr>ttype = Some ''fade'', tduration = Some 2\<rparr>\<rparr>"
  let ?three = "\<lparr>images = [''01.jpg'', ''02.jpg'', ''03.jpg''],
       voiceOver = None, backgroundMusic = None, logo = None, reviewImage = None,
       duration = 30, transition = Some \<lparr>ttype = Some ''fade'', tduration = Some 2\<rparr>\<rparr>"
  note A = transition_override [of ?three, THEN conjunct1]
  note B = transition_override [of ?ten, THEN conjunct2]
  have le: "length (images ?three) \<le> 6" by simp
  have gt: "6 < length (images ?ten)" by simp
  have a: "transitionDuration (transitionOrDefault (fc_transition (singlePassOptions ?three))) =
           (if length (images ?three) \<le> 5 then 6 / 10 else 4 / 10)"
    by (rule A [THEN mp, OF le, THEN conjunct2, THEN conjunct1])
  have a': "transitionDuration (transitionOrDefault (fc_transition (singlePassOptions ?three))) = 6 / 10"
    by (subst a) simp
  have b: "\<exists>offsets tracked.
      concatenation (projr (buildCommandChunked ?ten)) =
        XfadeChain offsets (transitionDuration (transitionOrDefault (transition ?ten))) tracked"
    by (rule B [THEN mp, OF gt, THEN conjunct2, THEN conjunct2, THEN conjunct2])
  have td: "transitionDuration (transitionOrDefault (transition ?ten)) = 2"
    by (simp add: transitionDuration_def transitionOrDefault_def)
  have b': "\<exists>offsets tracked.
      concatenation (projr (buildCommandChunked ?ten)) = XfadeChain offsets 2 tracked"
    using b by (simp only: td)
  show ?thesis
    by (intro conjI) (rule le a' gt b')+
qed

subsection \<open>The per-image duration\<close>

text \<open>
  Claim C1, as the code has it. Let \<open>N \<ge> 1\<close> images, a target duration \<open>D\<close> and a
  transition be handed to \<open>buildFilterComplex\<close>, and let \<open>T\<close> be the transition's
  duration, or \<open>0.5\<close> when that duration is missing or zero
  (\<open>transition.duration || 0.5\<close>). Then every image's clip is cut to
  \<open>(D + (N - 1) * T) / N\<close> seconds, the \<open>N - 1\<close> crossfades last \<open>T\<close> seconds each,
  join \<open>i\<close> starting at \<open>i\<close> times the per-image duration minus \<open>T\<close>, and the \<open>N\<close>
  per-image durations together minus \<open>(N - 1) * T\<close> are \<open>D\<close> exactly.
\<close>

theorem per_image_duration:
  assumes "fc_images fo \<noteq> []"
  defines "N \<equiv> rat_of_nat (length (fc_images fo))"
    and "D \<equiv> fc_duration fo"
    and "T \<equiv> transitionDuration (transitionOrDefault (fc_transition fo))"
  shows "T = (case fc_transition fo of
               None \<Rightarrow> 5 / 10
             | Some tr \<Rightarrow>
                 (case tduration tr of None \<Rightarrow> 5 / 10 | Some t \<Rightarrow> if t = 0 then 5 / 10 else t)) \<and>
         actualImageDuration fo = Fin ((D + (N - 1) * T) / N) \<and>
         (\<exists>p. buildFilterComplex fo = Inr p \<and>
              clipDurations p = replicate (length (fc_images fo)) (Fin ((D + (N - 1) * T) / N)) \<and>
              map xf_duration (xfades p) = replicate (length (fc_images fo) - 1) T \<and>
              map xf_offset (xfades p) =
                map (\<lambda>i. Fin (of_nat i * ((D + (N - 1) * T) / N) - T)) [1..<length (fc_images fo)] \<and>
              trimTo p = D) \<and>
         N * ((D + (N - 1) * T) / N) - (N - 1) * T = D"
proof -
  have n: "1 \<le> length (fc_images fo)" using assms(1) by (cases "fc_images fo") simp_all
  have N0: "N \<noteq> 0" using assms(1) by (simp add: N_def)
  have tc: "of_int (transitionCount (length (fc_images fo))) = N - 1"
    using n by (simp add: transitionCount_def N_def)
  have adj: "adjustedDuration fo = D + (N - 1) * T"
    by (simp add: adjustedDuration_def Let_def tc D_def T_def)
  have per: "actualImageDuration fo = Fin ((D + (N - 1) * T) / N)"
    using N0 by (simp add: actualImageDuration_def adj N_def)
  have t: "T = (case fc_transition fo of
               None \<Rightarrow> 5 / 10
             | Some tr \<Rightarrow>
                 (case tduration tr of None \<Rightarrow> 5 / 10 | Some t \<Rightarrow> if t = 0 then 5 / 10 else t))"
    by (simp add: T_def transitionDuration_def transitionOrDefault_def split: option.splits)
  have plan: "\<exists>p. buildFilterComplex fo = Inr p \<and>
              clipDurations p = replicate (length (fc_images fo)) (Fin ((D + (N - 1) * T) / N)) \<and>
              map xf_duration (xfades p) = replicate (length (fc_images fo) - 1) T \<and>
              map xf_offset (xfades p) =
                map (\<lambda>i. Fin (of_nat i * ((D + (N - 1) * T) / N) - T)) [1..<length (fc_images fo)] \<and>
              trimTo p = D"
    using assms(1) n
    by (auto simp: buildFilterComplex_def Let_def per map_replicate_const T_def D_def comp_def
                   jsnum_fin_simps)
  have bal: "N * ((D + (N - 1) * T) / N) - (N - 1) * T = D"
    using N0 by simp
  show ?thesis using t per plan bal by blast
qed

theorem per_image_duration_witness:
  "fc_images
     \<lparr>fc_images = [''a.jpg'', ''b.jpg''], fc_duration = 10, fc_voiceIndex = None,
      fc_musicIndex = None, fc_logoIndex = None, fc_reviewIndex = None,
      fc_transition = Some \<lparr>ttype = Some ''fade'', tduration = Some (6 / 10)\<rparr>\<rparr> \<noteq> [] \<and>
   actualImageDuration
     \<lparr>fc_images = [''a.jpg'', ''b.jpg''], fc_duration = 10, fc_voiceIndex = None,
      fc_musicIndex = None, fc_logoIndex = None, fc_reviewIndex = None,
      fc_transition = Some \<lparr>ttype = Some ''fade'', tduration = Some (6 / 10)\<rparr>\<rparr> = Fin ((10 + (2 - 1) * (6 / 10)) / 2) \<and>
   2 * ((10 + (2 - 1) * (6 / 10)) / 2) - (2 - 1) * (6 / 10) = (10::rat)"
proof -
  let ?fo = "\<lparr>fc_images = [''a.jpg'', ''b.jpg''], fc_duration = 10, fc_voiceIndex = None,
      fc_musicIndex = None, fc_logoIndex = None, fc_reviewIndex = None,
      fc_transition = Some \<lparr>ttype = Some ''fade'', tduration = Some (6 / 10)\<rparr>\<rparr>"
  have ne: "fc_images ?fo \<noteq> []" by simp
  note r = per_image_duration [OF ne]
  have td: "transitionDuration (transitionOrDefault (fc_transition ?fo)) = 6 / 10"
    by (simp add: transitionDuration_def transitionOrDefault_def)
  have "actualImageDuration ?fo = Fin ((10 + (2 - 1) * (6 / 10)) / 2)"
    using r [THEN conjunct2, THEN conjunct1] unfolding td by simp
  moreover have "2 * ((10 + (2 - 1) * (6 / 10)) / 2) - (2 - 1) * (6 / 10) = (10::rat)"
    using r [THEN conjunct2, THEN conjunct2, THEN conjunct2] unfolding td by simp
  ultimately show ?thesis using ne by blast
qed

text \<open>
  The claim as stated fails when the transition handed over has duration zero: with two
  images and a target of 10 seconds each image gets 5.25 seconds (the default of half a
  second is used), not \<open>(10 + 1 * 0) / 2 = 5\<close>, and the two durations minus one transition
  of zero seconds are 10.5, not 10.
\<close>

theorem per_image_duration_counterexample:
  "actualImageDuration
     \<lparr>fc_images = [''a.jpg'', ''b.jpg''], fc_duration = 10, fc_voiceIndex = None,
      fc_musicIndex = None, fc_logoIndex = None, fc_reviewIndex = None,
      fc_transition = Some \<lparr>ttype = Some ''fade'', tduration = Some 0\<rparr>\<rparr> = Fin (21 / 4) \<and>
   Fin (21 / 4) \<noteq> Fin ((10 + (2 - 1) * 0) / 2) \<and>
   2 * (21 / 4) - (2 - 1) * 0 \<noteq> (10::rat)"
  by code_simp

subsection \<open>The audio section\<close>

text \<open>
  The text of the audio chains is the text of the source, where the numerals written in
  the source are what \<open>fmt\<close> prints for their values.
\<close>

lemma render_audio_both:
  assumes "fmt (Fin 1500) = ''1500''" and "fmt (Fin 0) = ''0''" and "fmt (Fin (15 / 10)) = ''1.5''"
    and "fmt (Fin (15 / 100)) = ''0.15''" and "fmt (Fin 2) = ''2''"
  shows "render fmt (audioFilters (Some v) (Some m) d) =
     ''['' @ fmt (Fin (of_nat v)) @ '':a]adelay=1500|1500[delayed_voice];['' @
     fmt (Fin (of_nat m)) @ '':a]afade=t=in:st=0:d=1.5,afade=t=out:st='' @
     fmt (Fin (d - 15 / 10)) @ '':d=1.5,volume=0.15[music_faded];'' @
     ''[delayed_voice][music_faded]amix=inputs=2:duration=longest[audio]''"
  using assms by (simp add: render_def render_chain_def audioFilters_def)

lemma render_audio_voice:
  assumes "fmt (Fin 1500) = ''1500''"
  shows "render fmt (audioFilters (Some v) None d) =
     ''['' @ fmt (Fin (of_nat v)) @ '':a]adelay=1500|1500[audio]''"
  using assms by (simp add: render_def render_chain_def audioFilters_def)

lemma render_audio_music:
  assumes "fmt (Fin 0) = ''0''" and "fmt (Fin (15 / 10)) = ''1.5''" and "fmt (Fin (3 / 10)) = ''0.3''"
  shows "render fmt (audioFilters None (Some m) d) =
     ''['' @ fmt (Fin (of_nat m)) @ '':a]afade=t=in:st=0:d=1.5,afade=t=out:st='' @
     fmt (Fin (d - 15 / 10)) @ '':d=1.5,volume=0.3[audio]''"
  using assms by (simp add: render_def render_chain_def audioFilters_def)

lemma render_audio_silence:
  "render fmt (audioFilters None None d) =
     ''anullsrc=channel_layout=stereo:sample_rate=48000:duration='' @ fmt (Fin d) @ ''[audio]''"
  by (simp add: render_def render_chain_def audioFilters_def)

text \<open>
  Claim C7, as the code has it. Whenever the filter graph is built, its audio chains are
  decided by which audio inputs there are. With a voice-over and music: the voice-over is
  delayed by 1500 ms, the music is faded in over its first 1.5 s and out over the last
  1.5 s of the target duration and set to volume 0.15, and the two are mixed. With the
  voice-over alone: it is delayed by the same 1500 ms and nothing else, no fade is
  applied. With the music alone: the same two fades, and volume 0.3. With neither: a
  silent source whose duration is the target duration.
\<close>

theorem audio_cases:
  assumes "fc_images fo \<noteq> []"
  shows "(\<exists>p. buildFilterComplex fo = Inr p \<and>
              audioChains p = audioFilters (fc_voiceIndex fo) (fc_musicIndex fo) (fc_duration fo)) \<and>
    audioFilters (Some v) (Some m) d =
      [\<lparr>ins = [AudioIn v], steps = [Adelay 1500], out = Lbl ''delayed_voice''\<rparr>,
       \<lparr>ins = [AudioIn m],
        steps = [AfadeIn 0 (15 / 10), AfadeOut (d - 15 / 10) (15 / 10), Volume (15 / 100)],
        out = Lbl ''music_faded''\<rparr>,
       \<lparr>ins = [Lbl ''delayed_voice'', Lbl ''music_faded''], steps = [AmixLongest 2],
        out = Lbl ''audio''\<rparr>] \<and>
    audioFilters (Some v) None d =
      [\<lparr>ins = [AudioIn v], steps = [Adelay 1500], out = Lbl ''audio''\<rparr>] \<and>
    filter is_fade (concat (map steps (audioFilters (Some v) None d))) = [] \<and>
    audioFilters None (Some m) d =
      [\<lparr>ins = [AudioIn m],
        steps = [AfadeIn 0 (15 / 10), AfadeOut (d - 15 / 10) (15 / 10), Volume (3 / 10)],
        out = Lbl ''audio''\<rparr>] \<and>
    audioFilters None None d = [\<lparr>ins = [], steps = [Anullsrc d], out = Lbl ''audio''\<rparr>]"
  using assms by (simp add: buildFilterComplex_def Let_def audioFilters_def)

theorem audio_cases_witness:
  "fc_images
     \<lparr>fc_images = [''a.jpg'', ''b.jpg'', ''c.jpg''], fc_duration = 15, fc_voiceIndex = Some 3,
      fc_musicIndex = Some 4, fc_logoIndex = None, fc_reviewIndex = None, fc_transition = None\<rparr>
     \<noteq> [] \<and>
   (\<exists>p. buildFilterComplex
     \<lparr>fc_images = [''a.jpg'', ''b.jpg'', ''c.jpg''], fc_duration = 15, fc_voiceIndex = Some 3,
      fc_musicIndex = Some 4, fc_logoIndex = None, fc_reviewIndex = None, fc_transition = None\<rparr>
     = Inr p \<and>
     audioChains p =
      [\<lparr>ins = [AudioIn 3], steps = [Adelay 1500], out = Lbl ''delayed_voice''\<rparr>,
       \<lparr>ins = [AudioIn 4],
        steps = [AfadeIn 0 (15 / 10), AfadeOut (15 - 15 / 10) (15 / 10), Volume (15 / 100)],
        out = Lbl ''music_faded''\<rparr>,
       \<lparr>ins = [Lbl ''delayed_voice'', Lbl ''music_faded''], steps = [AmixLongest 2],
        out = Lbl ''audio''\<rparr>])"
proof -
  let ?fo = "\<lparr>fc_images = [''a.jpg'', ''b.jpg'', ''c.jpg''], fc_duration = 15, fc_voiceIndex = Some 3,
      fc_musicIndex = Some 4, fc_logoIndex = None, fc_reviewIndex = None, fc_transition = None\<rparr>"
  have ne: "fc_images ?fo \<noteq> []" by simp
  note r = audio_cases [OF ne, of 3 4 15]
  obtain p where p: "buildFilterComplex ?fo = Inr p"
    and a: "audioChains p = audioFilters (fc_voiceIndex ?fo) (fc_musicIndex ?fo) (fc_duration ?fo)"
    using r [THEN conjunct1] by blast
  have "audioChains p =
      [\<lparr>ins = [AudioIn 3], steps = [Adelay 1500], out = Lbl ''delayed_voice''\<rparr>,
       \<lparr>ins = [AudioIn 4],
        steps = [AfadeIn 0 (15 / 10), AfadeOut (15 - 15 / 10) (15 / 10), Volume (15 / 100)],
        out = Lbl ''music_faded''\<rparr>,
       \<lparr>ins = [Lbl ''delayed_voice'', Lbl ''music_faded''], steps = [AmixLongest 2],
        out = Lbl ''audio''\<rparr>]"
    using a r [THEN conjunct2, THEN conjunct1] by simp
  then show ?thesis using ne p by blast
qed

text \<open>
  The claim as stated fails for a voice-over with no music: the one chain emitted delays
  the voice-over and holds no fade.
\<close>

theorem audio_cases_counterexample:
  "buildFilterComplex
     \<lparr>fc_images = [''a.jpg'', ''b.jpg'', ''c.jpg''], fc_duration = 15, fc_voiceIndex = Some 3,
      fc_musicIndex = None, fc_logoIndex = None, fc_reviewIndex = None, fc_transition = None\<rparr> =
   Inr \<lparr>clipDurations = [Fin (16 / 3), Fin (16 / 3), Fin (16 / 3)],
        xfades = [\<lparr>xf_transition = ''fade'', xf_duration = 1 / 2, xf_offset = Fin (29 / 6)\<rparr>,
                  \<lparr>xf_transition = ''fade'', xf_duration = 1 / 2, xf_offset = Fin (61 / 6)\<rparr>],
        trimTo = 15,
        audioChains = [\<lparr>ins = [AudioIn 3], steps = [Adelay 1500], out = Lbl ''audio''\<rparr>]\<rparr> \<and>
   filter is_fade (concat (map steps
     [\<lparr>ins = [AudioIn 3], steps = [Adelay 1500], out = Lbl ''audio''\<rparr>])) = []"
  by code_simp

section \<open>Properties: VideoGenerator\<close>

text \<open>
  When the platform identifier has no registered template, \<open>generateVideo\<close> ends in an
  error and nothing has happened before it: no probe was started, no working directory
  created, no render begun. The error is the validation's
  \<open>Asset validation failed: No template found for platform: ...\<close> for every identifier
  that is not a name inherited from \<open>Object.prototype\<close>.
\<close>

lemma unregistered_platform_refused:
  assumes "map_of templates platform = None"
  shows "fst (generateVideo env platform a keepTemp) = [] \<and>
         (\<exists>e. snd (generateVideo env platform a keepTemp) = Inl e) \<and>
         (platform \<notin> set object_prototype_names \<longrightarrow>
            generateVideo env platform a keepTemp =
              ([], Inl (Error (''Asset validation failed: No template found for platform: '' @
                               platform))))"
proof (cases "platform \<in> set object_prototype_names")
  case False
  then have "lookup_template platform = Absent"
    using assms by (simp add: lookup_template_def)
  then have "generateVideo env platform a keepTemp =
              ([], Inl (Error (''Asset validation failed: No template found for platform: '' @
                               platform)))"
    by (simp add: generateVideo_def validateAssets_def)
  then show ?thesis by simp
next
  case True
  then have l: "lookup_template platform = Inherited"
    using assms by (simp add: lookup_template_def)
  show ?thesis
  proof (cases "a_images a")
    case None
    then show ?thesis
      using True by (simp add: generateVideo_def validateAssets_def l image_errors_def)
  next
    case (Some imgs)
    then show ?thesis
      using True by (simp add: generateVideo_def validateAssets_def l)
  qed
qed

lemma unregistered_platform_refused_example:
  "map_of templates ''myspace'' = None \<and>
   generateVideo
     \<lparr>tempDir = ''./temp'', now = ''1700000000000'', path_join = (\<lambda>a b. a @ ''/'' @ b),
      probe = (\<lambda>f. None), mkdir = (\<lambda>d. None), renderVideo = (\<lambda>t w. Inr (w @ ''/out.mp4''))\<rparr>
     ''myspace''
     \<lparr>a_images = Some [''1.jpg'', ''2.jpg'', ''3.jpg''], a_logo = Some ''logo.png'',
      a_reviewImage = None, a_voiceOver = None, a_backgroundMusic = None\<rparr>
     False =
   ([], Inl (Error ''Asset validation failed: No template found for platform: myspace''))"
proof -
  have n: "map_of templates ''myspace'' = None" by (simp add: templates_def)
  have o: "''myspace'' \<notin> set object_prototype_names" by (simp add: object_prototype_names_def)
  show ?thesis
    using n unregistered_platform_refused [OF n, THEN conjunct2, THEN conjunct2, THEN mp, OF o]
    by simp
qed

text \<open>
  Claim C8 does not hold of every identifier without a registered template. The
  validation tests \<open>this.templates[platform]\<close> for truthiness, and \<open>templates\<close> is an
  object literal: for \<open>constructor\<close>, which names no template, the lookup finds the
  member every object inherits, the test for a missing template passes, and with images
  given the validation throws a \<open>TypeError\<close> on reading \<open>template.duration.default\<close>
  instead of reporting the unknown platform. The request is still refused before any
  effect: no probe, no working directory, no render.
\<close>

theorem inherited_platform_name_not_reported:
  "map_of templates ''constructor'' = None \<and>
   lookup_template ''constructor'' = Inherited \<and>
   validateAssets ''constructor''
     \<lparr>a_images = Some [''1.jpg'', ''2.jpg'', ''3.jpg''], a_logo = Some ''logo.png'',
      a_reviewImage = None, a_voiceOver = None, a_backgroundMusic = None\<rparr> =
     Inl (TypeError ''Cannot read properties of undefined (reading 'default')'') \<and>
   generateVideo env ''constructor''
     \<lparr>a_images = Some [''1.jpg'', ''2.jpg'', ''3.jpg''], a_logo = Some ''logo.png'',
      a_reviewImage = None, a_voiceOver = None, a_backgroundMusic = None\<rparr>
     keepTemp =
   ([], Inl (TypeError ''Cannot read properties of undefined (reading 'default')''))"
proof -
  have n: "map_of templates ''constructor'' = None" by (simp add: templates_def)
  have l: "lookup_template ''constructor'' = Inherited"
    by (simp add: lookup_template_def n object_prototype_names_def)
  show ?thesis
    by (simp add: n l generateVideo_def validateAssets_def)
qed

section \<open>Properties: a logo without dimensions\<close>

lemma nan_absorbs:
  "jmul v NaN = NaN" "jdiv v NaN = NaN" "jmin v NaN = NaN" "jmax v NaN = NaN"
  "jsub v NaN = NaN" "jsub NaN v = NaN" "jadd v NaN = NaN"
  by (cases v; simp add: jsub_def)+

lemma declared_percent_positive:
  assumes "map_of PLATFORM_CONFIGS platform = Some c"
  shows "jlt (Fin 0) (logoHeightPercent c)"
proof -
  have "c \<in> snd ` set PLATFORM_CONFIGS"
    using map_of_SomeD [OF assms] by force
  then show ?thesis
    unfolding PLATFORM_CONFIGS_def by auto
qed

lemma maxWidth_fin:
  assumes "maxWidthPercent c = None \<or> (\<exists>q. maxWidthPercent c = Some (Fin q))"
  shows "\<exists>m. (case maxWidthPercent c of
                 None \<Rightarrow> jmul (jmul (Fin a) (Fin PHI_INVERSE)) (Fin (5 / 10))
               | Some pc \<Rightarrow>
                   if truthy pc \<and> jlt (jmul (Fin a) pc) (jmul (jmul (Fin a) (Fin PHI_INVERSE)) (Fin (5 / 10)))
                   then jmul (Fin a) pc else jmul (jmul (Fin a) (Fin PHI_INVERSE)) (Fin (5 / 10))) = Fin m"
proof -
  have "is_fin (case maxWidthPercent c of
                 None \<Rightarrow> jmul (jmul (Fin a) (Fin PHI_INVERSE)) (Fin (5 / 10))
               | Some pc \<Rightarrow>
                   if truthy pc \<and> jlt (jmul (Fin a) pc) (jmul (jmul (Fin a) (Fin PHI_INVERSE)) (Fin (5 / 10)))
                   then jmul (Fin a) pc else jmul (jmul (Fin a) (Fin PHI_INVERSE)) (Fin (5 / 10)))"
    using assms by auto
  then show ?thesis by (rule is_finE) blast
qed

lemma logoScale_NaN:
  assumes c: "map_of PLATFORM_CONFIGS platform = Some c"
    and vw: "0 < vw" and vh: "0 < vh"
    and bad: "(ow = NaN \<or> ow = Fin 0) \<and> (oh = NaN \<or> (\<exists>H. oh = Fin H \<and> 0 \<le> H)) \<or>
              (oh = NaN \<or> oh = Fin 0) \<and> (ow = NaN \<or> (\<exists>W. ow = Fin W \<and> 0 \<le> W))"
  shows "logoScale c (Fin vw) (Fin vh) ow oh = NaN"
proof -
  obtain pc lo hi where cfg: "logoHeightPercent c = Fin pc" "minSize c = Fin (of_int lo)"
      "maxSize c = Fin (of_int hi)" "lo \<le> hi" "0 < lo"
      "maxWidthPercent c = None \<or> (\<exists>q. maxWidthPercent c = Some (Fin q))"
    using declared_config [OF c] by blast
  have hi: "0 < rat_of_int hi" using cfg(4,5) by simp
  have pc: "0 < pc"
    using declared_percent_positive [OF c] by (simp add: cfg(1))
  have "jdiv ow oh = NaN \<or> (\<exists>H. ow = Fin 0 \<and> oh = Fin H \<and> 0 < H) \<or>
        (\<exists>W. oh = Fin 0 \<and> ow = Fin W \<and> 0 < W)"
    using bad by (cases ow; cases oh) (auto simp: inf_of_sign_def less_le)
  then consider (nan) "jdiv ow oh = NaN"
    | (w0) H where "ow = Fin 0" "oh = Fin H" "0 < H"
    | (h0) W where "oh = Fin 0" "ow = Fin W" "0 < W"
    by blast
  then show ?thesis
  proof cases
    case nan
    then show ?thesis by (simp add: logoScale_def Let_def nan_absorbs)
  next
    case w0
    have "jmul (jdiv (maxSize c) ow) (jdiv ow oh) = NaN"
      using w0 hi by (simp add: cfg(3) inf_of_sign_def)
    then show ?thesis by (simp add: logoScale_def Let_def nan_absorbs)
  next
    case h0
    have lar: "jdiv ow oh = PInf" using h0 by (simp add: inf_of_sign_def)
    have tpos: "\<exists>t. targetSize c (Fin vw) (Fin vh) = Fin t \<and> 0 < t"
      using vw vh pc by (simp add: targetSize_def Let_def cfg(1))
    then obtain t where t: "targetSize c (Fin vw) (Fin vh) = Fin t" "0 < t" by blast
    obtain m where m: "(case maxWidthPercent c of
                 None \<Rightarrow> jmul (jmul (Fin vw) (Fin PHI_INVERSE)) (Fin (5 / 10))
               | Some pc \<Rightarrow>
                   if truthy pc \<and> jlt (jmul (Fin vw) pc) (jmul (jmul (Fin vw) (Fin PHI_INVERSE)) (Fin (5 / 10)))
                   then jmul (Fin vw) pc else jmul (jmul (Fin vw) (Fin PHI_INVERSE)) (Fin (5 / 10))) = Fin m"
      using maxWidth_fin [OF cfg(6)] by blast
    have "fst (scaledSize c (Fin vw) (Fin vh) ow oh) = Fin 0"
      unfolding scaledSize_def Let_def lar t m
      using t(2) by (simp add: jgt_def inf_of_sign_def)
    then have "jdiv (fst (scaledSize c (Fin vw) (Fin vh) ow oh)) oh = NaN"
      using h0 by (simp add: inf_of_sign_def)
    then show ?thesis by (simp add: logoScale_def Let_def)
  qed
qed

text \<open>
  Claim C9 does not hold of \<open>calculateLogoSize\<close>: no default size is substituted. For
  every declared platform and every frame of positive size, a logo whose width or height
  is zero or missing (the other one being missing or not negative) gets a width, a height
  and a position that are all \<open>NaN\<close>.
\<close>

theorem logo_without_dimensions_is_NaN:
  assumes "platform \<in> fst ` set PLATFORM_CONFIGS" and "0 < vw" and "0 < vh"
    and "(ow = NaN \<or> ow = Fin 0) \<and> (oh = NaN \<or> (\<exists>H. oh = Fin H \<and> 0 \<le> H)) \<or>
         (oh = NaN \<or> oh = Fin 0) \<and> (ow = NaN \<or> (\<exists>W. ow = Fin W \<and> 0 \<le> W))"
  shows "width (calculateLogoSize platform (Fin vw) (Fin vh) ow oh) = NaN \<and>
         height (calculateLogoSize platform (Fin vw) (Fin vh) ow oh) = NaN \<and>
         logo_x (calculateLogoSize platform (Fin vw) (Fin vh) ow oh) = NaN \<and>
         logo_y (calculateLogoSize platform (Fin vw) (Fin vh) ow oh) = NaN"
proof -
  obtain c where c: "map_of PLATFORM_CONFIGS platform = Some c"
    using assms(1) by (cases "map_of PLATFORM_CONFIGS platform") (auto simp: map_of_eq_None_iff)
  then have cf: "config_for platform = c" by (simp add: config_for_def)
  have s: "logoScale c (Fin vw) (Fin vh) ow oh = NaN"
    by (rule logoScale_NaN [OF c assms(2,3,4)])
  have fh: "finalHeight c (Fin vw) (Fin vh) ow oh = NaN"
    by (simp add: finalHeight_def s nan_absorbs)
  have fw: "finalWidth c (Fin vw) (Fin vh) ow oh = NaN"
    by (simp add: finalWidth_def fh)
  show ?thesis
    by (simp add: calculateLogoSize_def Let_def cf fh fw calculateGoldenPosition_def nan_absorbs)
qed

theorem logo_without_dimensions_is_NaN_witness:
  "''youtube'' \<in> fst ` set PLATFORM_CONFIGS \<and> (0::rat) < 1920 \<and> (0::rat) < 1080 \<and>
   calculateLogoSize ''youtube'' (Fin 1920) (Fin 1080) (Fin 100) (Fin 0) =
     \<lparr>width = NaN, height = NaN, logo_x = NaN, logo_y = NaN, scale = NaN,
      size_reference = Some ''height'', targetPercentage = Fin (833 / 100)\<rparr> \<and>
   width (calculateLogoSize ''youtube'' (Fin 1920) (Fin 1080) (Fin 0) (Fin 100)) = NaN \<and>
   height (calculateLogoSize ''youtube'' (Fin 1920) (Fin 1080) NaN NaN) = NaN"
proof -
  have p: "''youtube'' \<in> fst ` set PLATFORM_CONFIGS" by (simp add: PLATFORM_CONFIGS_def)
  have w: "(0::rat) < 1920" and h: "(0::rat) < 1080" by simp_all
  have e: "calculateLogoSize ''youtube'' (Fin 1920) (Fin 1080) (Fin 100) (Fin 0) =
     \<lparr>width = NaN, height = NaN, logo_x = NaN, logo_y = NaN, scale = NaN,
      size_reference = Some ''height'', targetPercentage = Fin (833 / 100)\<rparr>"
    by code_simp
  have a: "width (calculateLogoSize ''youtube'' (Fin 1920) (Fin 1080) (Fin 0) (Fin 100)) = NaN"
    using logo_without_dimensions_is_NaN [OF p w h, of "Fin 0" "Fin 100"] by simp
  have b: "height (calculateLogoSize ''youtube'' (Fin 1920) (Fin 1080) NaN NaN) = NaN"
    using logo_without_dimensions_is_NaN [OF p w h, of NaN NaN] by simp
  show ?thesis using p w h e a b by simp
qed

end
